theory Spec2Isabelle
  imports Complex_Main "HOL-Library.Sublist" "HOL-Library.Log_Nat"
begin

section \<open>JavaScript numbers\<close>

text \<open>
  A value in a number-typed place is a real number, one of the three special values of
  IEEE arithmetic, or \<open>NonNum\<close>: a function or a plain object found where a number is
  expected, of which \<open>typeof\<close> is not \<open>'number'\<close>, which every arithmetic operation
  but \<open>+\<close> and every comparison reads as \<open>NaN\<close>, which \<open>+\<close> turns into a string (again
  not a number) and which is truthy.

  The operations \<open>js_add\<close>, \<open>js_mul\<close>, \<open>js_div\<close> give the exact result; the operations
  \<open>fl_add\<close>, \<open>fl_mul\<close>, \<open>fl_div\<close> round it to the nearest double as IEEE 754 binary64
  does (\<open>rd\<close>: to nearest, ties to even, with subnormals and overflow to the infinities).
  The statistics and the estimates of the engine --- trend, volatility, trend
  multiplier, confidence of an estimate, the statistical and the baseline estimate ---
  are modelled with the rounding operations and with their decimal literals as doubles
  (\<open>lit\<close>); the validator, the formatter and the other paths of the engine are modelled
  with the exact ones. The sign of zero is
  not modelled: a negative result that rounds to zero is the zero.
\<close>

datatype jsnum = Fin real | PosInf | NegInf | NaN | NonNum

text \<open>\<open>typeof a === 'number'\<close>.\<close>

definition is_number :: "jsnum \<Rightarrow> bool" where
  "is_number a = (a \<noteq> NonNum)"

fun js_neg :: "jsnum \<Rightarrow> jsnum" where
  "js_neg (Fin x) = Fin (- x)"
| "js_neg PosInf = NegInf"
| "js_neg NegInf = PosInf"
| "js_neg NaN = NaN"
| "js_neg NonNum = NaN"

fun js_add :: "jsnum \<Rightarrow> jsnum \<Rightarrow> jsnum" where
  "js_add (Fin x) (Fin y) = Fin (x + y)"
| "js_add NonNum _ = NonNum"
| "js_add _ NonNum = NonNum"
| "js_add NaN _ = NaN"
| "js_add _ NaN = NaN"
| "js_add PosInf NegInf = NaN"
| "js_add NegInf PosInf = NaN"
| "js_add PosInf _ = PosInf"
| "js_add NegInf _ = NegInf"
| "js_add _ PosInf = PosInf"
| "js_add _ NegInf = NegInf"

definition js_sub :: "jsnum \<Rightarrow> jsnum \<Rightarrow> jsnum" where
  "js_sub a b = (if a = NonNum \<or> b = NonNum then NaN else js_add a (js_neg b))"

text \<open>The sign of an infinity times or divided by a finite number.\<close>

definition inf_signed :: "bool \<Rightarrow> jsnum" where
  "inf_signed positive = (if positive then PosInf else NegInf)"

fun js_mul :: "jsnum \<Rightarrow> jsnum \<Rightarrow> jsnum" where
  "js_mul (Fin x) (Fin y) = Fin (x * y)"
| "js_mul NonNum _ = NaN"
| "js_mul _ NonNum = NaN"
| "js_mul NaN _ = NaN"
| "js_mul _ NaN = NaN"
| "js_mul PosInf (Fin y) = (if y = 0 then NaN else inf_signed (0 < y))"
| "js_mul NegInf (Fin y) = (if y = 0 then NaN else inf_signed (y < 0))"
| "js_mul (Fin x) PosInf = (if x = 0 then NaN else inf_signed (0 < x))"
| "js_mul (Fin x) NegInf = (if x = 0 then NaN else inf_signed (x < 0))"
| "js_mul PosInf PosInf = PosInf"
| "js_mul NegInf NegInf = PosInf"
| "js_mul PosInf NegInf = NegInf"
| "js_mul NegInf PosInf = NegInf"

fun js_div :: "jsnum \<Rightarrow> jsnum \<Rightarrow> jsnum" where
  "js_div (Fin x) (Fin y) =
     (if y \<noteq> 0 then Fin (x / y)
      else if 0 < x then PosInf else if x < 0 then NegInf else NaN)"
| "js_div NonNum _ = NaN"
| "js_div _ NonNum = NaN"
| "js_div NaN _ = NaN"
| "js_div _ NaN = NaN"
| "js_div (Fin x) PosInf = Fin 0"
| "js_div (Fin x) NegInf = Fin 0"
| "js_div PosInf (Fin y) = inf_signed (0 \<le> y)"
| "js_div NegInf (Fin y) = inf_signed (y < 0)"
| "js_div PosInf _ = NaN"
| "js_div NegInf _ = NaN"

fun js_lt :: "jsnum \<Rightarrow> jsnum \<Rightarrow> bool" where
  "js_lt (Fin x) (Fin y) = (x < y)"
| "js_lt NonNum _ = False"
| "js_lt _ NonNum = False"
| "js_lt NaN _ = False"
| "js_lt _ NaN = False"
| "js_lt _ NegInf = False"
| "js_lt PosInf _ = False"
| "js_lt NegInf _ = True"
| "js_lt _ PosInf = True"

definition js_gt :: "jsnum \<Rightarrow> jsnum \<Rightarrow> bool" where
  "js_gt a b = js_lt b a"

definition js_le :: "jsnum \<Rightarrow> jsnum \<Rightarrow> bool" where
  "js_le a b =
     (a \<noteq> NaN \<and> b \<noteq> NaN \<and> a \<noteq> NonNum \<and> b \<noteq> NonNum \<and> \<not> js_lt b a)"

text \<open>The global \<open>isNaN\<close>, which converts its argument to a number first.\<close>

definition isNaN :: "jsnum \<Rightarrow> bool" where
  "isNaN a = (a = NaN \<or> a = NonNum)"

text \<open>Truthiness: \<open>0\<close> and \<open>NaN\<close> are falsy.\<close>

definition truthy :: "jsnum \<Rightarrow> bool" where
  "truthy a = (a \<noteq> NaN \<and> a \<noteq> Fin 0)"

text \<open>\<open>Math.round\<close>: the nearest integer, a tie going up; the result is exact.\<close>

fun Math_round :: "jsnum \<Rightarrow> jsnum" where
  "Math_round (Fin x) = Fin (of_int \<lfloor>x + 1 / 2\<rfloor>)"
| "Math_round NonNum = NaN"
| "Math_round a = a"

text \<open>\<open>Math.min\<close> and \<open>Math.max\<close> of two arguments (\<open>NaN\<close> if either is not a number).\<close>

definition Math_min2 :: "jsnum \<Rightarrow> jsnum \<Rightarrow> jsnum" where
  "Math_min2 a b =
     (if isNaN a \<or> isNaN b then NaN else if js_lt b a then b else a)"

definition Math_max2 :: "jsnum \<Rightarrow> jsnum \<Rightarrow> jsnum" where
  "Math_max2 a b =
     (if isNaN a \<or> isNaN b then NaN else if js_lt a b then b else a)"

text \<open>\<open>Math.min(...xs)\<close> and \<open>Math.max(...xs)\<close>: the empty call gives the infinities.\<close>

definition Math_min :: "jsnum list \<Rightarrow> jsnum" where
  "Math_min xs = foldl Math_min2 PosInf xs"

definition Math_max :: "jsnum list \<Rightarrow> jsnum" where
  "Math_max xs = foldl Math_max2 NegInf xs"

text \<open>The length of an array as a number.\<close>

definition js_len :: "'a list \<Rightarrow> jsnum" where
  "js_len xs = Fin (real (length xs))"

subsection \<open>Rounding to a double\<close>

definition pow2 :: "int \<Rightarrow> real" where
  "pow2 q = (if 0 \<le> q then 2 ^ nat q else 1 / 2 ^ nat (- q))"

text \<open>The binary exponent of a positive real \<open>a\<close>: the \<open>e\<close> with \<open>2^e \<le> a < 2^(e+1)\<close>.\<close>

definition exponent :: "real \<Rightarrow> int" where
  "exponent a = (if 1 \<le> a then bitlen \<lfloor>a\<rfloor> - 1 else - bitlen (\<lceil>1 / a\<rceil> - 1))"

definition round_half_even :: "real \<Rightarrow> int" where
  "round_half_even x =
     (let f = \<lfloor>x\<rfloor>; d = x - of_int f
      in if d < 1 / 2 then f else if 1 / 2 < d then f + 1 else if even f then f else f + 1)"

text \<open>
  The double nearest to a real: 53 bits of precision, the least exponent of a unit in
  the last place \<open>-1074\<close>, a result of magnitude \<open>2^1024\<close> or more an infinity.
\<close>

definition rd :: "real \<Rightarrow> jsnum" where
  "rd x =
     (if x = 0 then Fin 0
      else
        let e = exponent \<bar>x\<bar>;
            q = max (e - 52) (- 1074);
            m = round_half_even (\<bar>x\<bar> / pow2 q);
            y = of_int m * pow2 q
        in if 2 ^ 1024 \<le> y then (if 0 < x then PosInf else NegInf)
           else Fin (if 0 < x then y else - y))"

text \<open>A decimal literal of the source is the double nearest to it.\<close>

definition lit :: "real \<Rightarrow> jsnum" where
  "lit x = rd x"

fun to_double :: "jsnum \<Rightarrow> jsnum" where
  "to_double (Fin x) = rd x"
| "to_double a = a"

definition fl_add :: "jsnum \<Rightarrow> jsnum \<Rightarrow> jsnum" where
  "fl_add a b = to_double (js_add a b)"

definition fl_sub :: "jsnum \<Rightarrow> jsnum \<Rightarrow> jsnum" where
  "fl_sub a b = to_double (js_sub a b)"

definition fl_mul :: "jsnum \<Rightarrow> jsnum \<Rightarrow> jsnum" where
  "fl_mul a b = to_double (js_mul a b)"

definition fl_div :: "jsnum \<Rightarrow> jsnum \<Rightarrow> jsnum" where
  "fl_div a b = to_double (js_div a b)"

text \<open>\<open>Math.sqrt\<close>, taken to be correctly rounded.\<close>

fun Math_sqrt :: "jsnum \<Rightarrow> jsnum" where
  "Math_sqrt (Fin x) = (if x < 0 then NaN else rd (sqrt x))"
| "Math_sqrt PosInf = PosInf"
| "Math_sqrt a = NaN"

section \<open>Data model\<close>

text \<open>
  A \<open>Date\<close> is its \<open>getTime()\<close>, in milliseconds; invalid dates are outside the model.
  The clock is an argument of every operation that reads it, read once per operation.
\<close>

type_synonym Date = int

record MandiPrice =
  mp_product :: string
  mp_location :: string
  mp_price :: jsnum
  mp_date :: Date
  mp_source :: string
  mp_verified :: bool

record HistoricalPrice =
  hp_date :: Date
  hp_price :: jsnum
  hp_volume :: jsnum
  hp_location :: string

record ProductQuery =
  q_name :: string
  q_category :: string
  q_location :: string
  q_quantity :: jsnum
  q_unit :: string

record PricePoint =
  pp_date :: Date
  pp_price :: jsnum
  pp_volume :: jsnum
  pp_source :: string

record PriceInfo =
  current :: jsnum
  minimum :: jsnum
  maximum :: jsnum
  average :: jsnum
  confidence :: jsnum
  source :: string
  lastUpdated :: Date

text \<open>\<open>EstimatedPrice extends PriceInfo\<close>.\<close>

record EstimatedPrice = PriceInfo +
  estimationMethod :: string
  historicalBasis :: "PricePoint list"

datatype trend = rising | falling | stable

record PriceHistory =
  ph_productId :: string
  ph_location :: string
  ph_prices :: "PricePoint list"
  ph_trend :: trend
  ph_volatility :: jsnum

text \<open>An \<open>Error\<close> is its message.\<close>

type_synonym error = string

section \<open>Strings\<close>

text \<open>
  Strings are lists of code units. \<open>toLowerCase\<close> is modelled on the ASCII letters and
  white space is the ASCII white space.
\<close>

definition lower_char :: "char \<Rightarrow> char" where
  "lower_char c =
     (let n = (of_char c :: nat) in if 65 \<le> n \<and> n \<le> 90 then char_of (n + 32) else c)"

definition toLowerCase :: "string \<Rightarrow> string" where
  "toLowerCase s = map lower_char s"

definition is_ws :: "char \<Rightarrow> bool" where
  "is_ws c = ((of_char c :: nat) \<in> {9, 10, 11, 12, 13, 32})"

definition trim :: "string \<Rightarrow> string" where
  "trim s = rev (dropWhile is_ws (rev (dropWhile is_ws s)))"

text \<open>\<open>s.replace(/\s+/g, '-')\<close>: every run of white space becomes one hyphen.\<close>

function replace_ws :: "string \<Rightarrow> string" where
  "replace_ws [] = []"
| "replace_ws (c # cs) =
     (if is_ws c then CHR ''-'' # replace_ws (dropWhile is_ws cs) else c # replace_ws cs)"
  by pat_completeness auto
termination
  by (relation "measure length") (auto simp: less_Suc_eq_le length_dropWhile_le)

text \<open>\<open>hay.includes(needle)\<close>.\<close>

fun js_includes :: "string \<Rightarrow> string \<Rightarrow> bool" where
  "js_includes [] needle = (needle = [])"
| "js_includes (h # hs) needle = (prefix needle (h # hs) \<or> js_includes hs needle)"

section \<open>Source client (market-data-adapter.ts)\<close>

text \<open>
  The provider is the environment. One HTTP attempt either answers with a body or fails,
  the failure carrying the response status when there is one. A body is the array of
  records found under \<open>records\<close>, \<open>data\<close> or at the top, each record already read
  field by field (\<open>extractProductName\<close>, \<open>parsePrice\<close>, \<open>parseDate\<close>, \<open>parseVolume\<close>);
  \<open>None\<close> is a body that holds no array or that cannot be read.
\<close>

datatype 'r http_outcome = HttpOk "'r list option" | HttpFail "nat option" error

record raw_price =
  rp_product :: string
  rp_price :: jsnum
  rp_date :: Date

record raw_historical =
  rh_date :: Date
  rh_price :: jsnum
  rh_volume :: jsnum

definition maxRetries :: nat where
  "maxRetries = 3"

text \<open>The test of \<open>makeRequestWithRetry\<close> for a client error (4xx), which is not retried.\<close>

definition is_client_error :: "nat option \<Rightarrow> bool" where
  "is_client_error status =
     (case status of None \<Rightarrow> False | Some st \<Rightarrow> st \<noteq> 0 \<and> 400 \<le> st \<and> st < 500)"

text \<open>
  The loop of \<open>makeRequestWithRetry\<close> from attempt \<open>attempt\<close> on; \<open>http n\<close> is the
  outcome of the \<open>n\<close>-th attempt. The waits between attempts do not change the result.
\<close>

function makeRequestFrom ::
  "(nat \<Rightarrow> 'r http_outcome) \<Rightarrow> nat \<Rightarrow> error \<Rightarrow> error + 'r list option" where
  "makeRequestFrom http attempt lastError =
     (if attempt \<le> maxRetries then
        (case http attempt of
           HttpOk response \<Rightarrow> Inr response
         | HttpFail status msg \<Rightarrow>
             if is_client_error status then Inl msg
             else makeRequestFrom http (attempt + 1) msg)
      else Inl lastError)"
  by pat_completeness auto
termination
  by (relation "measure (\<lambda>(http, attempt, lastError). Suc maxRetries - attempt)") auto

definition makeRequestWithRetry :: "(nat \<Rightarrow> 'r http_outcome) \<Rightarrow> error + 'r list option" where
  "makeRequestWithRetry http = makeRequestFrom http 1 ''undefined''"

definition parseMandiPricesResponse :: "raw_price list option \<Rightarrow> string \<Rightarrow> MandiPrice list" where
  "parseMandiPricesResponse data location =
     (case data of
        None \<Rightarrow> []
      | Some records \<Rightarrow>
          filter (\<lambda>price. js_gt (mp_price price) (Fin 0))
            (map (\<lambda>r.
                   \<lparr>mp_product = rp_product r, mp_location = location,
                    mp_price = rp_price r, mp_date = rp_date r,
                    mp_source = ''government_api'', mp_verified = True\<rparr>) records))"

definition parseHistoricalPricesResponse ::
  "raw_historical list option \<Rightarrow> string \<Rightarrow> HistoricalPrice list" where
  "parseHistoricalPricesResponse data location =
     (case data of
        None \<Rightarrow> []
      | Some records \<Rightarrow>
          filter (\<lambda>price. js_gt (hp_price price) (Fin 0))
            (map (\<lambda>r.
                   \<lparr>hp_date = rh_date r, hp_price = rh_price r,
                    hp_volume = rh_volume r, hp_location = location\<rparr>) records))"

text \<open>
  \<open>GovernmentMarketDataAdapter.fetchMandiPrices\<close>: a failed request is caught and
  answered with the empty array; nothing is thrown.
\<close>

definition fetchMandiPrices :: "(nat \<Rightarrow> raw_price http_outcome) \<Rightarrow> string \<Rightarrow> MandiPrice list" where
  "fetchMandiPrices http location =
     (case makeRequestWithRetry http of
        Inr response \<Rightarrow> parseMandiPricesResponse response location
      | Inl e \<Rightarrow> [])"

text \<open>\<open>GovernmentMarketDataAdapter.getHistoricalData\<close>, likewise.\<close>

definition getHistoricalData ::
  "(nat \<Rightarrow> raw_historical http_outcome) \<Rightarrow> string \<Rightarrow> HistoricalPrice list" where
  "getHistoricalData http location =
     (case makeRequestWithRetry http of
        Inr response \<Rightarrow> parseHistoricalPricesResponse response location
      | Inl e \<Rightarrow> [])"

text \<open>\<open>GovernmentMarketDataAdapter.validateDataFreshness\<close>, the clock read as \<open>now\<close>.\<close>

definition validateDataFreshness :: "Date \<Rightarrow> MandiPrice \<Rightarrow> bool" where
  "validateDataFreshness now data =
     (let dataAge = now - mp_date data;
          maxAgeMs = 24 * 60 * 60 * 1000;
          isFresh = dataAge < maxAgeMs;
          isVerified = mp_verified data;
          hasValidPrice = js_gt (mp_price data) (Fin 0)
      in isFresh \<and> isVerified \<and> hasValidPrice)"

section \<open>Cache store (market-data-cache.ts)\<close>

text \<open>
  The Redis store is a map from keys to the cached arrays; it stands for the live
  content of Redis when an operation runs, entries expiring between operations.
  A key \<open>mandi:prices:<location>:<YYYY-MM-DD>\<close> is the pair of the normalised
  location and the number of the UTC day, which the date string determines and is
  determined by; a key \<open>mandi:historical:<product>:<location>:<days>\<close> is the pair
  of the text before the last colon and the number after it. Serialisation is taken to
  give back what was written. \<open>client_ok\<close> says whether a Redis command succeeds;
  a command that fails throws and the store's methods catch it.
\<close>

record MarketDataCache =
  isConnected :: bool
  connectionRetries :: nat
  client_ok :: bool
  prices_db :: "string \<times> int \<Rightarrow> MandiPrice list option"
  historical_db :: "string \<times> jsnum \<Rightarrow> HistoricalPrice list option"

definition generateMandiPricesKey :: "string \<Rightarrow> Date \<Rightarrow> string \<times> int" where
  "generateMandiPricesKey location date =
     (let dateStr = date div 86400000;
          normalizedLocation = replace_ws (toLowerCase location)
      in (normalizedLocation, dateStr))"

definition generateHistoricalDataKey :: "string \<Rightarrow> string \<Rightarrow> jsnum \<Rightarrow> string \<times> jsnum" where
  "generateHistoricalDataKey product location days =
     (let normalizedProduct = replace_ws (toLowerCase product);
          normalizedLocation = replace_ws (toLowerCase location)
      in (normalizedProduct @ '':'' @ normalizedLocation, days))"

text \<open>\<open>connect\<close>; the retry it schedules on failure runs later and is not part of the call.\<close>

definition connect :: "MarketDataCache \<Rightarrow> MarketDataCache" where
  "connect c =
     (if \<not> isConnected c then
        (if client_ok c then c\<lparr>isConnected := True, connectionRetries := 0\<rparr>
         else c\<lparr>connectionRetries := connectionRetries c + 1\<rparr>)
      else c)"

definition cacheMandiPrices ::
  "MarketDataCache \<Rightarrow> string \<Rightarrow> Date \<Rightarrow> MandiPrice list \<Rightarrow> MarketDataCache" where
  "cacheMandiPrices c location date prices =
     (if \<not> isConnected c then c
      else if \<not> client_ok c then c
      else c\<lparr>prices_db := (prices_db c)(generateMandiPricesKey location date \<mapsto> prices)\<rparr>)"

definition getCachedMandiPrices ::
  "MarketDataCache \<Rightarrow> string \<Rightarrow> Date \<Rightarrow> MandiPrice list option" where
  "getCachedMandiPrices c location date =
     (if \<not> isConnected c then None
      else if \<not> client_ok c then None
      else prices_db c (generateMandiPricesKey location date))"

definition cacheHistoricalData ::
  "MarketDataCache \<Rightarrow> string \<Rightarrow> string \<Rightarrow> jsnum \<Rightarrow> HistoricalPrice list \<Rightarrow> MarketDataCache" where
  "cacheHistoricalData c product location days data =
     (if \<not> isConnected c then c
      else if \<not> client_ok c then c
      else c\<lparr>historical_db :=
               (historical_db c)(generateHistoricalDataKey product location days \<mapsto> data)\<rparr>)"

definition getCachedHistoricalData ::
  "MarketDataCache \<Rightarrow> string \<Rightarrow> string \<Rightarrow> jsnum \<Rightarrow> HistoricalPrice list option" where
  "getCachedHistoricalData c product location days =
     (if \<not> isConnected c then None
      else if \<not> client_ok c then None
      else historical_db c (generateHistoricalDataKey product location days))"

section \<open>Fallback orchestrator (CachedMarketDataAdapter)\<close>

record CachedMarketDataAdapter =
  cache :: MarketDataCache
  isInitialized :: bool

text \<open>
  The clock as one operation reads it: the instant, the local hour of the day
  (\<open>getHours()\<close>) and the local month (\<open>getMonth()\<close>, from 0).
\<close>

record clock =
  clk_now :: Date
  clk_hours :: nat
  clk_month :: nat

definition initialize :: "CachedMarketDataAdapter \<Rightarrow> CachedMarketDataAdapter" where
  "initialize a =
     (if isInitialized a then a
      else a\<lparr>cache := connect (cache a), isInitialized := True\<rparr>)"

text \<open>\<open>CachedMarketDataAdapter.validateDataFreshness\<close>.\<close>

definition Cached_validateDataFreshness :: "clock \<Rightarrow> MandiPrice \<Rightarrow> bool" where
  "Cached_validateDataFreshness clk data =
     (let isBasicValid = validateDataFreshness (clk_now clk) data
      in if \<not> isBasicValid then False
         else
           let dataAge = clk_now clk - mp_date data;
               currentHour = clk_hours clk;
               maxAgeMs = (if currentHour \<ge> 6 \<and> currentHour \<le> 18
                           then 6 * 60 * 60 * 1000 else 12 * 60 * 60 * 1000);
               isFreshEnough = dataAge < maxAgeMs
           in isFreshEnough)"

text \<open>
  \<open>CachedMarketDataAdapter.fetchMandiPrices\<close> around any source: \<open>api\<close> is what the
  call \<open>this.apiAdapter.fetchMandiPrices(location, date)\<close> does if it is reached, a
  rejection (\<open>Inl\<close>) or an array. The \<open>catch\<close> block is the \<open>Inl\<close> branch: the methods
  of the store catch their own errors, so only the source can throw inside the \<open>try\<close>.
\<close>

definition fetchMandiPrices_with ::
  "clock \<Rightarrow> error + MandiPrice list \<Rightarrow> CachedMarketDataAdapter \<Rightarrow> string \<Rightarrow> Date
     \<Rightarrow> MandiPrice list \<times> CachedMarketDataAdapter" where
  "fetchMandiPrices_with clk api a0 location date =
     (let a = (if \<not> isInitialized a0 then initialize a0 else a0);
          cached = getCachedMandiPrices (cache a) location date;
          freshData = (case cached of
                         None \<Rightarrow> []
                       | Some ps \<Rightarrow> filter (Cached_validateDataFreshness clk) ps)
      in if cached \<noteq> None \<and> cached \<noteq> Some [] \<and> freshData \<noteq> [] then (freshData, a)
         else
           (case api of
              Inr apiData \<Rightarrow>
                (apiData,
                 if apiData \<noteq> [] then a\<lparr>cache := cacheMandiPrices (cache a) location date apiData\<rparr>
                 else a)
            | Inl e \<Rightarrow>
                (case getCachedMandiPrices (cache a) location date of
                   None \<Rightarrow> ([], a)
                 | Some staleCache \<Rightarrow> if staleCache \<noteq> [] then (staleCache, a) else ([], a))))"

text \<open>
  The adapter as its constructor builds it, over the government source client, whose
  \<open>fetchMandiPrices\<close> never rejects.
\<close>

definition Cached_fetchMandiPrices ::
  "clock \<Rightarrow> (nat \<Rightarrow> raw_price http_outcome) \<Rightarrow> CachedMarketDataAdapter \<Rightarrow> string \<Rightarrow> Date
     \<Rightarrow> MandiPrice list \<times> CachedMarketDataAdapter" where
  "Cached_fetchMandiPrices clk http a location date =
     fetchMandiPrices_with clk (Inr (fetchMandiPrices http location)) a location date"

text \<open>\<open>CachedMarketDataAdapter.getHistoricalData\<close>, in the same two steps.\<close>

definition getHistoricalData_with ::
  "error + HistoricalPrice list \<Rightarrow> CachedMarketDataAdapter \<Rightarrow> string \<Rightarrow> string \<Rightarrow> jsnum
     \<Rightarrow> HistoricalPrice list \<times> CachedMarketDataAdapter" where
  "getHistoricalData_with api a0 product location days =
     (let a = (if \<not> isInitialized a0 then initialize a0 else a0);
          cached = getCachedHistoricalData (cache a) product location days
      in if cached \<noteq> None \<and> cached \<noteq> Some [] then (the cached, a)
         else
           (case api of
              Inr apiData \<Rightarrow>
                (apiData,
                 if apiData \<noteq> []
                 then a\<lparr>cache := cacheHistoricalData (cache a) product location days apiData\<rparr>
                 else a)
            | Inl e \<Rightarrow>
                (case getCachedHistoricalData (cache a) product location days of
                   None \<Rightarrow> ([], a)
                 | Some fallbackCache \<Rightarrow>
                     if fallbackCache \<noteq> [] then (fallbackCache, a) else ([], a))))"

definition Cached_getHistoricalData ::
  "(nat \<Rightarrow> raw_historical http_outcome) \<Rightarrow> CachedMarketDataAdapter \<Rightarrow> string \<Rightarrow> string
     \<Rightarrow> jsnum \<Rightarrow> HistoricalPrice list \<times> CachedMarketDataAdapter" where
  "Cached_getHistoricalData http a product location days =
     getHistoricalData_with (Inr (getHistoricalData http location)) a product location days"

section \<open>Validator (price-validation.ts)\<close>

record ValidationResult =
  isValid :: bool
  errors :: "string list"

text \<open>\<open>errors.join(sep)\<close>.\<close>

fun join :: "string \<Rightarrow> string list \<Rightarrow> string" where
  "join sep [] = []"
| "join sep [x] = x"
| "join sep (x # y # ys) = x @ sep @ join sep (y # ys)"

text \<open>One \<open>if (cond) errors.push(msg)\<close>.\<close>

definition push_if :: "bool \<Rightarrow> string \<Rightarrow> string list" where
  "push_if cond msg = (if cond then [msg] else [])"

text \<open>
  \<open>validateProductQuery\<close>. The \<open>typeof\<close> tests of the strings hold by the types of the
  fields. An empty string is falsy; so are the numbers \<open>0\<close> and \<open>NaN\<close>, which therefore
  skip the range test.
\<close>

definition validateProductQuery :: "ProductQuery \<Rightarrow> ValidationResult" where
  "validateProductQuery product =
     (let errors =
        push_if (q_name product = [] \<or> length (trim (q_name product)) = 0)
          ''Product name is required and must be a non-empty string'' @
        push_if (q_category product = [] \<or> length (trim (q_category product)) = 0)
          ''Product category is required and must be a non-empty string'' @
        push_if (q_location product = [] \<or> length (trim (q_location product)) = 0)
          ''Location is required and must be a non-empty string'' @
        push_if (q_unit product = [] \<or> length (trim (q_unit product)) = 0)
          ''Unit is required and must be a non-empty string'' @
        push_if (\<not> is_number (q_quantity product) \<or> js_le (q_quantity product) (Fin 0))
          ''Quantity must be a positive number'' @
        push_if (q_name product \<noteq> [] \<and> length (q_name product) > 100)
          ''Product name must be 100 characters or less'' @
        push_if (q_category product \<noteq> [] \<and> length (q_category product) > 50)
          ''Product category must be 50 characters or less'' @
        push_if (q_location product \<noteq> [] \<and> length (q_location product) > 100)
          ''Location must be 100 characters or less'' @
        push_if (q_unit product \<noteq> [] \<and> length (q_unit product) > 20)
          ''Unit must be 20 characters or less'' @
        push_if (truthy (q_quantity product) \<and>
                 (js_gt (q_quantity product) (Fin 1000000) \<or>
                  js_lt (q_quantity product) (Fin 0.001)))
          ''Quantity must be between 0.001 and 1,000,000''
      in \<lparr>isValid = (length errors = 0), errors = errors\<rparr>)"

definition maxReasonablePrice :: jsnum where
  "maxReasonablePrice = Fin 100000"

text \<open>
  \<open>validatePriceData\<close>, the clock read as \<open>now\<close>. The test for a valid \<open>Date\<close> holds by
  the type; the double quotes and the rupee sign of two messages are written as their
  bytes.
\<close>

definition validatePriceData :: "Date \<Rightarrow> 'a PriceInfo_scheme \<Rightarrow> ValidationResult" where
  "validatePriceData now priceInfo =
     (let errors =
        push_if (\<not> is_number (current priceInfo) \<or> js_lt (current priceInfo) (Fin 0))
          ''Current price must be a non-negative number'' @
        push_if (\<not> is_number (minimum priceInfo) \<or> js_lt (minimum priceInfo) (Fin 0))
          ''Minimum price must be a non-negative number'' @
        push_if (\<not> is_number (maximum priceInfo) \<or> js_lt (maximum priceInfo) (Fin 0))
          ''Maximum price must be a non-negative number'' @
        push_if (\<not> is_number (average priceInfo) \<or> js_lt (average priceInfo) (Fin 0))
          ''Average price must be a non-negative number'' @
        push_if (\<not> is_number (confidence priceInfo) \<or> js_lt (confidence priceInfo) (Fin 0) \<or>
                 js_gt (confidence priceInfo) (Fin 1))
          ''Confidence must be a number between 0 and 1'' @
        push_if (source priceInfo = [] \<or> source priceInfo \<notin> set [''official'', ''estimated''])
          (''Source must be either '' @ [CHR 0x22] @ ''official'' @ [CHR 0x22] @ '' or '' @
           [CHR 0x22] @ ''estimated'' @ [CHR 0x22]) @
        push_if (js_gt (minimum priceInfo) (maximum priceInfo))
          ''Minimum price cannot be greater than maximum price'' @
        push_if (js_lt (current priceInfo) (minimum priceInfo) \<or>
                 js_gt (current priceInfo) (maximum priceInfo))
          ''Current price must be between minimum and maximum prices'' @
        push_if (js_lt (average priceInfo) (minimum priceInfo) \<or>
                 js_gt (average priceInfo) (maximum priceInfo))
          ''Average price must be between minimum and maximum prices'' @
        push_if (js_gt (current priceInfo) maxReasonablePrice \<or>
                 js_gt (minimum priceInfo) maxReasonablePrice \<or>
                 js_gt (maximum priceInfo) maxReasonablePrice \<or>
                 js_gt (average priceInfo) maxReasonablePrice)
          (''Prices seem unreasonably high (above '' @ [CHR 0xE2, CHR 0x82, CHR 0xB9] @
           ''100000)'') @
        push_if (lastUpdated priceInfo < now - 24 * 60 * 60 * 1000)
          ''Price data is older than 24 hours and may be stale''
      in \<lparr>isValid = (length errors = 0), errors = errors\<rparr>)"

section \<open>Formatter (price-formatting.ts)\<close>

definition formatPrice :: "jsnum \<Rightarrow> error + jsnum" where
  "formatPrice price =
     (if \<not> is_number price \<or> isNaN price then Inl ''Price must be a valid number''
      else if js_lt price (Fin 0) then Inl ''Price cannot be negative''
      else Inr (js_div (Math_round (js_mul price (Fin 100))) (Fin 100)))"

definition formatConfidence :: "jsnum \<Rightarrow> error + jsnum" where
  "formatConfidence c =
     (if \<not> is_number c \<or> isNaN c then Inl ''Confidence must be a valid number''
      else if js_lt c (Fin 0) \<or> js_gt c (Fin 1) then Inl ''Confidence must be between 0 and 1''
      else Inr (js_div (Math_round (js_mul c (Fin 100))) (Fin 100)))"

text \<open>
  \<open>formatPriceInfo\<close>: the fields of the object literal are computed in the order they
  are written, so the first one that throws decides the error; the other fields are
  those of the argument (\<open>...priceInfo\<close>).
\<close>

definition formatPriceInfo :: "'a PriceInfo_scheme \<Rightarrow> error + 'a PriceInfo_scheme" where
  "formatPriceInfo priceInfo =
     (case formatPrice (current priceInfo) of
        Inl e \<Rightarrow> Inl e
      | Inr c \<Rightarrow>
         (case formatPrice (minimum priceInfo) of
            Inl e \<Rightarrow> Inl e
          | Inr mn \<Rightarrow>
             (case formatPrice (maximum priceInfo) of
                Inl e \<Rightarrow> Inl e
              | Inr mx \<Rightarrow>
                 (case formatPrice (average priceInfo) of
                    Inl e \<Rightarrow> Inl e
                  | Inr av \<Rightarrow>
                     (case formatConfidence (confidence priceInfo) of
                        Inl e \<Rightarrow> Inl e
                      | Inr cf \<Rightarrow>
                          Inr (priceInfo\<lparr>current := c, minimum := mn, maximum := mx,
                                           average := av, confidence := cf\<rparr>))))))"

section \<open>Price discovery engine (price-discovery-service.ts)\<close>

text \<open>
  The injected collaborators are the environment: a market data adapter and an AI
  service are given by what their methods answer, a rejection being \<open>Inl\<close>.
\<close>

record MarketDataAdapter =
  ad_fetchMandiPrices :: "string \<Rightarrow> Date \<Rightarrow> error + MandiPrice list"
  ad_getHistoricalData :: "string \<Rightarrow> string \<Rightarrow> jsnum \<Rightarrow> error + HistoricalPrice list"
  ad_validateDataFreshness :: "MandiPrice \<Rightarrow> bool"

datatype seasonality = peak | off_season | normal

record MarketContext =
  mc_seasonality :: seasonality
  mc_festivalSeason :: bool
  mc_supplyDisruptions :: "string list option"
  mc_demandFactors :: "string list option"

record AIService =
  ai_estimatePriceWithAI ::
    "ProductQuery \<Rightarrow> PricePoint list \<Rightarrow> MarketContext \<Rightarrow> error + EstimatedPrice"

text \<open>The state of the service is its short-term cache.\<close>

record PriceDiscoveryService =
  priceCache :: "string \<Rightarrow> (PriceInfo \<times> Date) option"

definition CACHE_TTL_MS :: int where
  "CACHE_TTL_MS = 5 * 60 * 1000"

definition generateCacheKey :: "ProductQuery \<Rightarrow> string" where
  "generateCacheKey product =
     q_name product @ ''-'' @ q_category product @ ''-'' @ q_location product"

definition isCacheValid :: "Date \<Rightarrow> Date \<Rightarrow> bool" where
  "isCacheValid now timestamp = (now - timestamp < CACHE_TTL_MS)"

definition isProductMatch :: "string \<Rightarrow> string \<Rightarrow> string \<Rightarrow> bool" where
  "isProductMatch mandiProduct queryName queryCategory =
     (let normalizedMandi = trim (toLowerCase mandiProduct);
          normalizedName = trim (toLowerCase queryName);
          normalizedCategory = trim (toLowerCase queryCategory)
      in js_includes normalizedMandi normalizedName \<or>
         js_includes normalizedMandi normalizedCategory \<or>
         js_includes normalizedName normalizedMandi)"

definition convertMandiPriceToPriceInfo :: "MandiPrice \<Rightarrow> string \<Rightarrow> PriceInfo" where
  "convertMandiPriceToPriceInfo mandiPrice src =
     \<lparr>current = mp_price mandiPrice,
      minimum = js_mul (mp_price mandiPrice) (Fin 0.95),
      maximum = js_mul (mp_price mandiPrice) (Fin 1.05),
      average = mp_price mandiPrice,
      confidence = (if mp_verified mandiPrice then Fin 0.95 else Fin 0.75),
      source = src,
      lastUpdated = mp_date mandiPrice\<rparr>"

text \<open>\<open>xs.slice(-7)\<close> is the last seven elements, or all of a shorter array.\<close>

definition slice_last :: "nat \<Rightarrow> 'a list \<Rightarrow> 'a list" where
  "slice_last n xs = drop (length xs - n) xs"

definition calculateTrend :: "PricePoint list \<Rightarrow> trend" where
  "calculateTrend pricePoints =
     (if length pricePoints < 2 then stable
      else
        let recent = slice_last 7 pricePoints;
            older = take 7 pricePoints;
            recentAvg = fl_div (foldl (\<lambda>sum p. fl_add sum (pp_price p)) (Fin 0) recent)
                               (js_len recent);
            olderAvg = fl_div (foldl (\<lambda>sum p. fl_add sum (pp_price p)) (Fin 0) older)
                              (js_len older);
            change = fl_div (fl_sub recentAvg olderAvg) olderAvg
        in if js_gt change (lit 0.05) then rising
           else if js_lt change (lit (- 0.05)) then falling
           else stable)"

text \<open>\<open>Math.pow(d, 2)\<close> is taken to be the rounded product \<open>d * d\<close>.\<close>

definition calculateVolatility :: "PricePoint list \<Rightarrow> jsnum" where
  "calculateVolatility pricePoints =
     (if length pricePoints < 2 then Fin 0
      else
        let prices = map pp_price pricePoints;
            mean = fl_div (foldl (\<lambda>sum price. fl_add sum price) (Fin 0) prices) (js_len prices);
            variance =
              fl_div (foldl (\<lambda>sum price.
                               fl_add sum (fl_mul (fl_sub price mean) (fl_sub price mean)))
                            (Fin 0) prices)
                     (js_len prices)
        in fl_div (Math_sqrt variance) mean)"

definition calculateTrendMultiplier :: "jsnum list \<Rightarrow> jsnum" where
  "calculateTrendMultiplier recentPrices =
     (if length recentPrices < 2 then Fin 1
      else
        let firstHalf = take (length recentPrices div 2) recentPrices;
            secondHalf = drop (length recentPrices div 2) recentPrices;
            firstAvg = fl_div (foldl (\<lambda>sum p. fl_add sum p) (Fin 0) firstHalf)
                              (js_len firstHalf);
            secondAvg = fl_div (foldl (\<lambda>sum p. fl_add sum p) (Fin 0) secondHalf)
                               (js_len secondHalf)
        in fl_div secondAvg firstAvg)"

definition calculateConfidence :: "jsnum \<Rightarrow> jsnum \<Rightarrow> jsnum" where
  "calculateConfidence dataPoints maxPoints =
     (let baseConfidence = Math_min2 (fl_div dataPoints maxPoints) (Fin 1)
      in fl_div (Math_round (fl_mul (fl_mul baseConfidence (lit 0.8)) (Fin 100))) (Fin 100))"

text \<open>
  The table of \<open>estimateFromCategory\<close> and its lookup \<open>categoryBasePrices[key] || 50\<close>.
  The table is an object literal, so the two lower-case names it inherits from
  \<open>Object.prototype\<close> are found too: \<open>constructor\<close> holds a function and \<open>__proto__\<close> an
  object, both truthy and neither a number.
\<close>

definition categoryBasePrices :: "(string \<times> jsnum) list" where
  "categoryBasePrices =
     [(''vegetables'', Fin 30), (''fruits'', Fin 50), (''grains'', Fin 25),
      (''pulses'', Fin 80), (''spices'', Fin 200)]"

definition basePrice_of :: "string \<Rightarrow> jsnum" where
  "basePrice_of key =
     (case map_of categoryBasePrices key of
        Some v \<Rightarrow> v
      | None \<Rightarrow> if key \<in> set [''constructor'', ''__proto__''] then NonNum else Fin 50)"

definition estimateFromCategory :: "clock \<Rightarrow> ProductQuery \<Rightarrow> EstimatedPrice" where
  "estimateFromCategory clk product =
     (let basePrice = basePrice_of (toLowerCase (q_category product))
      in \<lparr>current = basePrice,
          minimum = fl_mul basePrice (lit 0.8),
          maximum = fl_mul basePrice (lit 1.2),
          average = basePrice,
          confidence = Fin 0.3,
          source = ''estimated'',
          lastUpdated = clk_now clk,
          estimationMethod = ''category_baseline'',
          historicalBasis = []\<rparr>)"

definition buildMarketContext :: "clock \<Rightarrow> ProductQuery \<Rightarrow> HistoricalPrice list \<Rightarrow> MarketContext" where
  "buildMarketContext clk product historicalData =
     (let currentMonth = clk_month clk;
          category = toLowerCase (q_category product);
          seasonality =
            (if category = ''vegetables'' then
               (if currentMonth \<in> set [10, 11, 0, 1] then peak
                else if currentMonth \<in> set [5, 6, 7, 8] then off_season
                else normal)
             else if category = ''fruits'' then
               (if currentMonth \<in> set [2, 3, 4, 5] then peak else normal)
             else if category = ''grains'' then
               (if currentMonth \<in> set [9, 10, 11] then off_season
                else if currentMonth \<in> set [3, 4, 5] then peak
                else normal)
             else normal);
          festivalSeason = (currentMonth \<in> set [8, 9, 10]);
          supplyDisruptions =
            (if length historicalData > 0 then
               (let prices = map hp_price historicalData;
                    mean = fl_div (foldl (\<lambda>sum price. fl_add sum price) (Fin 0) prices)
                                  (js_len prices);
                    variance =
                      fl_div (foldl (\<lambda>sum price.
                                 fl_add sum (fl_mul (fl_sub price mean) (fl_sub price mean)))
                               (Fin 0) prices)
                             (js_len prices);
                    volatility = fl_div (Math_sqrt variance) mean
                in if js_gt volatility (lit 0.3)
                   then [''High price volatility indicating supply issues''] else [])
             else [])
      in \<lparr>mc_seasonality = seasonality,
          mc_festivalSeason = festivalSeason,
          mc_supplyDisruptions =
            (if length supplyDisruptions > 0 then Some supplyDisruptions else None),
          mc_demandFactors =
            (if festivalSeason then Some [''Festival season increased demand''] else None)\<rparr>)"

definition toHistoricalPoint :: "HistoricalPrice \<Rightarrow> PricePoint" where
  "toHistoricalPoint d =
     \<lparr>pp_date = hp_date d, pp_price = hp_price d, pp_volume = hp_volume d,
      pp_source = ''historical''\<rparr>"

text \<open>\<open>Math.round(x * 100) / 100\<close>, as the estimator writes it inline.\<close>

definition round2 :: "jsnum \<Rightarrow> jsnum" where
  "round2 x = fl_div (Math_round (fl_mul x (Fin 100))) (Fin 100)"

definition estimateFromHistoricalData ::
  "clock \<Rightarrow> ProductQuery \<Rightarrow> HistoricalPrice list \<Rightarrow> EstimatedPrice" where
  "estimateFromHistoricalData clk product historicalData =
     (let prices = map hp_price historicalData;
          avg = fl_div (foldl (\<lambda>sum price. fl_add sum price) (Fin 0) prices) (js_len prices);
          mn = Math_min prices;
          mx = Math_max prices;
          recentPrices = map hp_price (slice_last 7 historicalData);
          trendMultiplier = calculateTrendMultiplier recentPrices;
          cur = fl_mul avg trendMultiplier
      in \<lparr>current = round2 cur,
          minimum = round2 (fl_mul mn (lit 0.9)),
          maximum = round2 (fl_mul mx (lit 1.1)),
          average = round2 avg,
          confidence = calculateConfidence (js_len historicalData) (Fin 30),
          source = ''estimated'',
          lastUpdated = clk_now clk,
          estimationMethod = ''historical_average_with_trend'',
          historicalBasis = map toHistoricalPoint historicalData\<rparr>)"

text \<open>\<open>estimatePrice\<close>. It returns the estimate as the chosen path built it.\<close>

definition estimatePrice ::
  "clock \<Rightarrow> MarketDataAdapter \<Rightarrow> AIService \<Rightarrow> ProductQuery \<Rightarrow> error + EstimatedPrice" where
  "estimatePrice clk adapter ai product =
     (let validation = validateProductQuery product
      in if \<not> isValid validation
         then Inl (''Invalid product query: '' @ join '', '' (errors validation))
         else
           (case ad_getHistoricalData adapter (q_name product) (q_location product) (Fin 30) of
              Inl e \<Rightarrow> Inl (''Failed to estimate price for '' @ q_name product @ '': '' @ e)
            | Inr historicalData \<Rightarrow>
                if length historicalData > 0 then
                  (let marketContext = buildMarketContext clk product historicalData
                   in case ai_estimatePriceWithAI ai product
                             (map toHistoricalPoint historicalData) marketContext of
                        Inr estimatedPrice \<Rightarrow> Inr estimatedPrice
                      | Inl aiError \<Rightarrow>
                          Inr (estimateFromHistoricalData clk product historicalData))
                else
                  (let marketContext = buildMarketContext clk product []
                   in case ai_estimatePriceWithAI ai product [] marketContext of
                        Inr estimatedPrice \<Rightarrow> Inr estimatedPrice
                      | Inl aiError \<Rightarrow> Inr (estimateFromCategory clk product))))"

text \<open>
  \<open>getCurrentPrice\<close>. Every error raised inside the \<open>try\<close> is rethrown with the prefix
  of the \<open>catch\<close>; the result of a successful call is also stored in the cache.
\<close>

definition getCurrentPrice ::
  "clock \<Rightarrow> MarketDataAdapter \<Rightarrow> AIService \<Rightarrow> PriceDiscoveryService \<Rightarrow> ProductQuery
     \<Rightarrow> (error + PriceInfo) \<times> PriceDiscoveryService" where
  "getCurrentPrice clk adapter ai s product =
     (let validation = validateProductQuery product;
          cacheKey = generateCacheKey product;
          cached = priceCache s cacheKey;
          failed = (\<lambda>msg. (Inl (''Failed to get price for '' @ q_name product @ '': '' @ msg), s))
      in if \<not> isValid validation
         then (Inl (''Invalid product query: '' @ join '', '' (errors validation)), s)
         else if cached \<noteq> None \<and> isCacheValid (clk_now clk) (snd (the cached))
         then (Inr (fst (the cached)), s)
         else
           (case ad_fetchMandiPrices adapter (q_location product) (clk_now clk) of
              Inl e \<Rightarrow> failed e
            | Inr mandiPrices \<Rightarrow>
                (let matchingPrice =
                       find (\<lambda>price. isProductMatch (mp_product price) (q_name product)
                                        (q_category product)) mandiPrices;
                     computed =
                       (if matchingPrice \<noteq> None \<and>
                           ad_validateDataFreshness adapter (the matchingPrice)
                        then Inr (convertMandiPriceToPriceInfo (the matchingPrice) ''official'')
                        else
                          (case estimatePrice clk adapter ai product of
                             Inl e \<Rightarrow> Inl e
                           | Inr estimated \<Rightarrow>
                               Inr \<lparr>current = current estimated,
                                    minimum = minimum estimated,
                                    maximum = maximum estimated,
                                    average = average estimated,
                                    confidence = js_mul (confidence estimated) (Fin 0.8),
                                    source = ''estimated'',
                                    lastUpdated = clk_now clk\<rparr>))
                 in case computed of
                      Inl e \<Rightarrow> failed e
                    | Inr priceInfo0 \<Rightarrow>
                        (case formatPriceInfo priceInfo0 of
                           Inl e \<Rightarrow> failed e
                         | Inr priceInfo \<Rightarrow>
                             if \<not> isValid (validatePriceData (clk_now clk) priceInfo)
                             then failed ''Generated price data failed validation''
                             else
                               (Inr priceInfo,
                                s\<lparr>priceCache :=
                                     (priceCache s)(cacheKey \<mapsto> (priceInfo, clk_now clk))\<rparr>)))))"

text \<open>\<open>cleanup\<close> clears the cache.\<close>

definition cleanup :: "PriceDiscoveryService \<Rightarrow> PriceDiscoveryService" where
  "cleanup s = s\<lparr>priceCache := Map.empty\<rparr>"

definition toOfficialPoint :: "HistoricalPrice \<Rightarrow> PricePoint" where
  "toOfficialPoint d =
     \<lparr>pp_date = hp_date d, pp_price = hp_price d, pp_volume = hp_volume d,
      pp_source = ''official''\<rparr>"

definition getPriceHistory ::
  "MarketDataAdapter \<Rightarrow> ProductQuery \<Rightarrow> jsnum \<Rightarrow> error + PriceHistory" where
  "getPriceHistory adapter product days =
     (let validation = validateProductQuery product
      in if \<not> isValid validation
         then Inl (''Invalid product query: '' @ join '', '' (errors validation))
         else if js_le days (Fin 0) \<or> js_gt days (Fin 365)
         then Inl ''Days must be between 1 and 365''
         else
           (case ad_getHistoricalData adapter (q_name product) (q_location product) days of
              Inl e \<Rightarrow> Inl (''Failed to get price history for '' @ q_name product @ '': '' @ e)
            | Inr historicalData \<Rightarrow>
                (let pricePoints = map toOfficialPoint historicalData;
                     trend = calculateTrend pricePoints;
                     volatility = calculateVolatility pricePoints
                 in Inr \<lparr>ph_productId = q_name product @ ''-'' @ q_category product,
                         ph_location = q_location product,
                         ph_prices = pricePoints,
                         ph_trend = trend,
                         ph_volatility = volatility\<rparr>)))"

section \<open>States the engine can reach\<close>

text \<open>
  The service starts with an empty short-term cache; \<open>getCurrentPrice\<close> (with whatever
  the clock, the adapter and the AI service answer) and \<open>cleanup\<close> are the operations
  that change it.
\<close>

inductive reachable :: "PriceDiscoveryService \<Rightarrow> bool" where
  init: "reachable \<lparr>priceCache = Map.empty\<rparr>"
| call: "reachable s \<Longrightarrow> getCurrentPrice clk adapter ai s product = (res, s') \<Longrightarrow> reachable s'"
| clean: "reachable s \<Longrightarrow> reachable (cleanup s)"

section \<open>Reference formulas\<close>

text \<open>
  The formulas of the specification, to compare the code with: in the arithmetic of the
  program, each sum, quotient, difference and product rounded to a double (\<open>fl_mean\<close>,
  \<open>relative_change\<close>, \<open>spec_trend_multiplier\<close>, \<open>spec_statistical_current\<close>), and the
  mean over the reals (\<open>mean\<close>).
\<close>

definition mean :: "real list \<Rightarrow> real" where
  "mean xs = sum_list xs / real (length xs)"

definition first_half :: "'a list \<Rightarrow> 'a list" where
  "first_half xs = take (length xs div 2) xs"

definition second_half :: "'a list \<Rightarrow> 'a list" where
  "second_half xs = drop (length xs div 2) xs"

definition fl_sum :: "jsnum list \<Rightarrow> jsnum" where
  "fl_sum xs = foldl fl_add (Fin 0) xs"

definition fl_mean :: "jsnum list \<Rightarrow> jsnum" where
  "fl_mean xs = fl_div (fl_sum xs) (js_len xs)"

text \<open>(mean of the last 7 \<open>-\<close> mean of the first 7) \<open>/\<close> mean of the first 7.\<close>

definition relative_change :: "jsnum list \<Rightarrow> jsnum" where
  "relative_change prices =
     fl_div (fl_sub (fl_mean (slice_last 7 prices)) (fl_mean (take 7 prices)))
            (fl_mean (take 7 prices))"

text \<open>Mean of the second half \<open>/\<close> mean of the first half.\<close>

definition spec_trend_multiplier :: "jsnum list \<Rightarrow> jsnum" where
  "spec_trend_multiplier recent = fl_div (fl_mean (second_half recent)) (fl_mean (first_half recent))"

text \<open>Mean of all prices \<open>\<times>\<close> the trend multiplier of the last 7, to two decimals.\<close>

definition spec_statistical_current :: "jsnum list \<Rightarrow> jsnum" where
  "spec_statistical_current prices =
     round2 (fl_mul (fl_mean prices) (spec_trend_multiplier (slice_last 7 prices)))"

text \<open>Every price of the series is a number, and none is below zero.\<close>

definition none_negative :: "jsnum list \<Rightarrow> bool" where
  "none_negative prices = list_all (\<lambda>p. is_number p \<and> \<not> js_lt p (Fin 0)) prices"


text \<open>The invariant of a price record: finite fields, ordered, confidence in \<open>[0, 1]\<close>.\<close>

definition in_range :: "'a PriceInfo_scheme \<Rightarrow> bool" where
  "in_range p = (\<exists>c mn mx av cf.
      current p = Fin c \<and> minimum p = Fin mn \<and> maximum p = Fin mx \<and> average p = Fin av \<and>
      confidence p = Fin cf \<and>
      mn \<le> c \<and> c \<le> mx \<and> mn \<le> av \<and> av \<le> mx \<and> 0 \<le> cf \<and> cf \<le> 1)"

definition cache_in_range :: "PriceDiscoveryService \<Rightarrow> bool" where
  "cache_in_range s = (\<forall>k p ts. priceCache s k = Some (p, ts) \<longrightarrow> in_range p)"

section \<open>Sample inputs\<close>

definition sample_clock :: clock where
  "sample_clock = \<lparr>clk_now = 90000000, clk_hours = 10, clk_month = 3\<rparr>"

definition later_clock :: clock where
  "later_clock = \<lparr>clk_now = 90060000, clk_hours = 10, clk_month = 3\<rparr>"


definition tomato_query :: ProductQuery where
  "tomato_query = \<lparr>q_name = ''tomato'', q_category = ''vegetables'', q_location = ''delhi'',
      q_quantity = Fin 10, q_unit = ''kg''\<rparr>"

definition tomato_record :: MandiPrice where
  "tomato_record = \<lparr>mp_product = ''tomato'', mp_location = ''delhi'', mp_price = Fin 25,
      mp_date = 90000000, mp_source = ''mock'', mp_verified = True\<rparr>"

definition mock_adapter :: MarketDataAdapter where
  "mock_adapter = \<lparr>ad_fetchMandiPrices = (\<lambda>location date. Inr [tomato_record]),
      ad_getHistoricalData = (\<lambda>product location days. Inr []),
      ad_validateDataFreshness = validateDataFreshness 90000000\<rparr>"

definition failing_adapter :: MarketDataAdapter where
  "failing_adapter = \<lparr>ad_fetchMandiPrices = (\<lambda>location date. Inl ''source down''),
      ad_getHistoricalData = (\<lambda>product location days. Inl ''source down''),
      ad_validateDataFreshness = (\<lambda>price. False)\<rparr>"

definition failing_ai :: AIService where
  "failing_ai = \<lparr>ai_estimatePriceWithAI = (\<lambda>product history context. Inl ''AI service error'')\<rparr>"

definition official_tomato :: PriceInfo where
  "official_tomato = \<lparr>current = Fin 25, minimum = Fin 23.75, maximum = Fin 26.25,
      average = Fin 25, confidence = Fin 0.95, source = ''official'', lastUpdated = 90000000\<rparr>"

definition empty_service :: PriceDiscoveryService where
  "empty_service = \<lparr>priceCache = Map.empty\<rparr>"

definition tomato_service :: PriceDiscoveryService where
  "tomato_service =
     \<lparr>priceCache = Map.empty(generateCacheKey tomato_query \<mapsto> (official_tomato, 90000000))\<rparr>"

definition day_price :: "int \<Rightarrow> real \<Rightarrow> HistoricalPrice" where
  "day_price d x =
     \<lparr>hp_date = d * 86400000, hp_price = Fin x, hp_volume = Fin 100, hp_location = ''delhi''\<rparr>"

definition rising_series :: "HistoricalPrice list" where
  "rising_series =
     [day_price 0 20, day_price 1 22, day_price 2 24, day_price 3 26, day_price 4 28,
      day_price 5 30, day_price 6 32, day_price 7 34]"

definition series_adapter :: MarketDataAdapter where
  "series_adapter = \<lparr>ad_fetchMandiPrices = (\<lambda>location date. Inr []),
      ad_getHistoricalData = (\<lambda>product location days. Inr rising_series),
      ad_validateDataFreshness = (\<lambda>price. False)\<rparr>"

definition rising_history :: PriceHistory where
  "rising_history =
     \<lparr>ph_productId = ''tomato-vegetables'', ph_location = ''delhi'',
      ph_prices = map toOfficialPoint rising_series,
      ph_trend = calculateTrend (map toOfficialPoint rising_series),
      ph_volatility = calculateVolatility (map toOfficialPoint rising_series)\<rparr>"

definition two_point_history :: "HistoricalPrice list" where
  "two_point_history = [day_price 0 1, day_price 1 3]"

definition one_point_history :: "HistoricalPrice list" where
  "one_point_history = [day_price 0 10]"



text \<open>
  Eight prices whose exact relative change from the first seven to the last seven is
  exactly \<open>1/20\<close>.
\<close>

definition threshold_series :: "HistoricalPrice list" where
  "threshold_series =
     [day_price 0 9, day_price 1 9, day_price 2 9, day_price 3 9, day_price 4 8,
      day_price 5 8, day_price 6 8, day_price 7 12]"

definition threshold_adapter :: MarketDataAdapter where
  "threshold_adapter = \<lparr>ad_fetchMandiPrices = (\<lambda>location date. Inr []),
      ad_getHistoricalData = (\<lambda>product location days. Inr threshold_series),
      ad_validateDataFreshness = (\<lambda>price. False)\<rparr>"

definition threshold_history :: PriceHistory where
  "threshold_history =
     \<lparr>ph_productId = ''tomato-vegetables'', ph_location = ''delhi'',
      ph_prices = map toOfficialPoint threshold_series,
      ph_trend = rising,
      ph_volatility = calculateVolatility (map toOfficialPoint threshold_series)\<rparr>"

text \<open>Three days at the price 1.15, as a double.\<close>

definition day_lit :: "int \<Rightarrow> real \<Rightarrow> HistoricalPrice" where
  "day_lit d x =
     \<lparr>hp_date = d * 86400000, hp_price = lit x, hp_volume = Fin 100, hp_location = ''delhi''\<rparr>"

definition flat_history :: "HistoricalPrice list" where
  "flat_history = [day_lit 0 1.15, day_lit 1 1.15, day_lit 2 1.15]"

text \<open>A valid query whose category is a name that every object literal inherits.\<close>

definition constructor_query :: ProductQuery where
  "constructor_query = \<lparr>q_name = ''tomato'', q_category = ''constructor'',
      q_location = ''delhi'', q_quantity = Fin 10, q_unit = ''kg''\<rparr>"

text \<open>A provider that answers every attempt with 503.\<close>

definition failing_http :: "nat \<Rightarrow> 'r http_outcome" where
  "failing_http attempt = HttpFail (Some 503) ''Service Unavailable''"

text \<open>A verified record that is 25 hours old at the sample instant, and one 8 hours old.\<close>

definition stale_onion :: MandiPrice where
  "stale_onion = \<lparr>mp_product = ''Onion'', mp_location = ''Delhi'', mp_price = Fin 25.5,
      mp_date = 0, mp_source = ''government_api'', mp_verified = True\<rparr>"

definition morning_onion :: MandiPrice where
  "morning_onion = \<lparr>mp_product = ''Onion'', mp_location = ''Delhi'', mp_price = Fin 25.5,
      mp_date = 61200000, mp_source = ''government_api'', mp_verified = True\<rparr>"

definition stale_cache_adapter :: CachedMarketDataAdapter where
  "stale_cache_adapter =
     \<lparr>cache = \<lparr>isConnected = True, connectionRetries = 0, client_ok = True,
               prices_db = Map.empty(generateMandiPricesKey ''Delhi'' 90000000 \<mapsto> [stale_onion]),
               historical_db = Map.empty\<rparr>,
      isInitialized = True\<rparr>"

section \<open>Arithmetic\<close>

lemma js_gt_zero_iff:
  "js_gt p (Fin 0) \<longleftrightarrow> (p = PosInf \<or> (\<exists>x. p = Fin x \<and> 0 < x))"
  by (cases p) (simp_all add: js_gt_def)

lemma js_gt_lt_excl: "js_gt c (Fin a) \<Longrightarrow> js_lt c (Fin b) \<Longrightarrow> b \<le> a \<Longrightarrow> False"
  by (cases c) (simp_all add: js_gt_def)

lemma avg_field:
  "fl_div (foldl (\<lambda>sum p. fl_add sum (f p)) (Fin 0) ps) (js_len ps) = fl_mean (map f ps)"
  by (simp add: fl_mean_def fl_sum_def foldl_map js_len_def)

lemma avg_plain:
  "fl_div (foldl (\<lambda>sum price. fl_add sum price) (Fin 0) ps) (js_len ps) = fl_mean ps"
  by (simp add: fl_mean_def fl_sum_def)

lemma foldl_min_Fin:
  "foldl Math_min2 (Fin a) (map Fin xs) = Fin (Min (insert a (set xs)))"
proof (induction xs arbitrary: a)
  case Nil
  then show ?case by simp
next
  case (Cons x xs)
  have "Math_min2 (Fin a) (Fin x) = Fin (min a x)"
    by (simp add: Math_min2_def isNaN_def min_def)
  moreover have "Min (insert (min a x) (set xs)) = Min (insert a (insert x (set xs)))"
    by (cases "xs = []") (simp_all add: min.assoc)
  ultimately show ?case using Cons.IH [of "min a x"] by simp
qed

lemma foldl_max_Fin:
  "foldl Math_max2 (Fin a) (map Fin xs) = Fin (Max (insert a (set xs)))"
proof (induction xs arbitrary: a)
  case Nil
  then show ?case by simp
next
  case (Cons x xs)
  have "Math_max2 (Fin a) (Fin x) = Fin (max a x)"
    by (simp add: Math_max2_def isNaN_def max_def)
  moreover have "Max (insert (max a x) (set xs)) = Max (insert a (insert x (set xs)))"
    by (cases "xs = []") (simp_all add: max.assoc)
  ultimately show ?case using Cons.IH [of "max a x"] by simp
qed

lemma Math_min_Fin: "xs \<noteq> [] \<Longrightarrow> Math_min (map Fin xs) = Fin (Min (set xs))"
  by (cases xs) (simp_all add: Math_min_def Math_min2_def isNaN_def foldl_min_Fin)

lemma Math_max_Fin: "xs \<noteq> [] \<Longrightarrow> Math_max (map Fin xs) = Fin (Max (set xs))"
  by (cases xs) (simp_all add: Math_max_def Math_max2_def isNaN_def foldl_max_Fin)

lemma push_if_Nil: "push_if c m = [] \<longleftrightarrow> \<not> c"
  by (simp add: push_if_def)

text \<open>The equations that evaluate a rounding, and the rounding operations, on numerals.\<close>

lemmas rd_eval = rd_def exponent_def round_half_even_def pow2_def Let_def compute_bitlen

lemmas fl_eval = fl_add_def fl_sub_def fl_mul_def fl_div_def lit_def js_sub_def js_len_def

lemma lit_005: "lit 0.05 = Fin (3602879701896397 / 72057594037927936)"
  by (simp add: lit_def rd_eval)

lemma lit_minus_005: "lit (- 0.05) = Fin (- 3602879701896397 / 72057594037927936)"
  by (simp add: lit_def rd_eval)


section \<open>Facts about the sample inputs\<close>

lemma valid_tomato: "isValid (validateProductQuery tomato_query)"
  by (simp add: validateProductQuery_def tomato_query_def push_if_def trim_def is_ws_def
      js_le_def js_gt_def truthy_def is_number_def)

lemma valid_constructor: "isValid (validateProductQuery constructor_query)"
  by (simp add: validateProductQuery_def constructor_query_def push_if_def trim_def is_ws_def
      js_le_def js_gt_def truthy_def is_number_def)

lemma match_tomato: "isProductMatch ''tomato'' ''tomato'' ''vegetables''"
  by (simp add: isProductMatch_def toLowerCase_def lower_char_def trim_def is_ws_def)

lemma format_official_tomato:
  "formatPriceInfo (convertMandiPriceToPriceInfo tomato_record ''official'') = Inr official_tomato"
  by (simp add: convertMandiPriceToPriceInfo_def tomato_record_def formatPriceInfo_def
      formatPrice_def formatConfidence_def isNaN_def is_number_def js_gt_def official_tomato_def)

lemma valid_official_tomato: "isValid (validatePriceData 90000000 official_tomato)"
  by (simp add: validatePriceData_def official_tomato_def push_if_def js_gt_def
      maxReasonablePrice_def is_number_def)

lemma fresh_tomato: "validateDataFreshness 90000000 tomato_record"
  by (simp add: validateDataFreshness_def tomato_record_def js_gt_def)

lemma find_tomato:
  "find (\<lambda>price. isProductMatch (mp_product price) (q_name tomato_query)
                    (q_category tomato_query)) [tomato_record] = Some tomato_record"
  using match_tomato by (simp add: tomato_record_def tomato_query_def)

text \<open>
  The example of the specification: a verified record of today at 25 gives an official
  price of 25 with confidence 0.95, which is then cached.
\<close>

lemma first_call:
  "getCurrentPrice sample_clock mock_adapter failing_ai empty_service tomato_query =
     (Inr official_tomato, tomato_service)"
  using valid_tomato find_tomato fresh_tomato format_official_tomato valid_official_tomato
  by (simp add: getCurrentPrice_def Let_def mock_adapter_def empty_service_def tomato_service_def
      sample_clock_def)


text \<open>
  Three prices of 1.15: the products \<open>1.15 \<times> 0.9 \<times> 100\<close> and \<open>1.15 \<times> 1.1 \<times> 100\<close> fall
  just below 103.5 and 126.5 as doubles, so the bounds are 1.03 and 1.26, where exact
  arithmetic would give 1.04 and 1.27.
\<close>

lemma flat_statistical:
  "minimum (estimateFromHistoricalData sample_clock tomato_query flat_history) = lit 1.03 \<and>
   maximum (estimateFromHistoricalData sample_clock tomato_query flat_history) = lit 1.26"
  by (simp add: estimateFromHistoricalData_def flat_history_def day_lit_def
      slice_last_def Math_min_def Math_max_def
      Math_min2_def Math_max2_def isNaN_def round2_def fl_eval rd_eval)

lemma threshold_trend: "calculateTrend (map toOfficialPoint threshold_series) = rising"
  by (simp add: calculateTrend_def threshold_series_def day_price_def toOfficialPoint_def
      slice_last_def fl_eval rd_eval js_gt_def)

text \<open>The relative change of that series as the program computes it, and its 0.05.\<close>

lemma threshold_relative_change:
  "relative_change (map Fin [9, 9, 9, 9, 8, 8, 8, 12]) =
     Fin (3602879701896399 / 72057594037927936)"
  by (simp add: relative_change_def fl_mean_def fl_sum_def slice_last_def fl_eval rd_eval)

lemma threshold_history_call:
  "getPriceHistory threshold_adapter tomato_query (Fin 8) = Inr threshold_history"
  using valid_tomato threshold_trend
  by (simp add: getPriceHistory_def Let_def threshold_adapter_def threshold_history_def js_le_def
      js_gt_def tomato_query_def [THEN arg_cong, of q_name]
      tomato_query_def [THEN arg_cong, of q_category]
      tomato_query_def [THEN arg_cong, of q_location])

lemma rising_history_call:
  "getPriceHistory series_adapter tomato_query (Fin 8) = Inr rising_history"
  using valid_tomato
  by (simp add: getPriceHistory_def Let_def series_adapter_def rising_history_def js_le_def
      js_gt_def tomato_query_def [THEN arg_cong, of q_name]
      tomato_query_def [THEN arg_cong, of q_category]
      tomato_query_def [THEN arg_cong, of q_location])

lemma rising_prices:
  "map pp_price (ph_prices rising_history) = map Fin [20, 22, 24, 26, 28, 30, 32, 34]"
  by (simp add: rising_history_def rising_series_def day_price_def toOfficialPoint_def)

lemma failing_http_fails:
  "makeRequestWithRetry failing_http = Inl ''Service Unavailable''"
  by (simp add: makeRequestWithRetry_def maxRetries_def is_client_error_def failing_http_def)

lemma stale_cached:
  "getCachedMandiPrices (cache stale_cache_adapter) ''Delhi'' 90000000 = Some [stale_onion]"
  by (simp add: getCachedMandiPrices_def stale_cache_adapter_def)

lemma stale_not_fresh: "\<not> Cached_validateDataFreshness sample_clock stale_onion"
  by (simp add: Cached_validateDataFreshness_def validateDataFreshness_def stale_onion_def
      sample_clock_def)

section \<open>The source client and the fallback orchestrator\<close>

text \<open>
  C6. The source client's freshness check holds exactly when the record is strictly
  less than 24 hours old, is verified and has a price strictly above zero (a positive
  real or \<open>+Infinity\<close>); so a record that is 24 hours old or older, or that is not
  verified, is rejected.
\<close>

theorem validateDataFreshness_iff:
  "(validateDataFreshness now d \<longleftrightarrow>
      now - mp_date d < 86400000 \<and> mp_verified d \<and>
      (mp_price d = PosInf \<or> (\<exists>x. mp_price d = Fin x \<and> 0 < x)))
   \<and> (86400000 \<le> now - mp_date d \<longrightarrow> \<not> validateDataFreshness now d)
   \<and> (\<not> mp_verified d \<longrightarrow> \<not> validateDataFreshness now d)"
  by (auto simp: validateDataFreshness_def Let_def js_gt_zero_iff)

theorem validateDataFreshness_iff_witness:
  "validateDataFreshness 90000000 morning_onion
   \<and> 86400000 \<le> (90000000::int) - mp_date stale_onion
   \<and> \<not> validateDataFreshness 90000000 stale_onion
   \<and> \<not> mp_verified (morning_onion\<lparr>mp_verified := False\<rparr>)
   \<and> \<not> validateDataFreshness 90000000 (morning_onion\<lparr>mp_verified := False\<rparr>)"
proof -
  have p: "mp_price morning_onion = PosInf \<or> (\<exists>x. mp_price morning_onion = Fin x \<and> 0 < x)"
    by (rule disjI2, rule exI [of _ "25.5"]) (simp add: morning_onion_def)
  have a: "90000000 - mp_date morning_onion < 86400000" and v: "mp_verified morning_onion"
    by (simp_all add: morning_onion_def)
  have o: "86400000 \<le> (90000000::int) - mp_date stale_onion"
    by (simp add: stale_onion_def)
  have u: "\<not> mp_verified (morning_onion\<lparr>mp_verified := False\<rparr>)" by simp
  have "validateDataFreshness 90000000 morning_onion"
    using validateDataFreshness_iff [of 90000000 morning_onion] p a v by blast
  moreover have "\<not> validateDataFreshness 90000000 stale_onion"
    using validateDataFreshness_iff [of 90000000 stale_onion] o by blast
  moreover have "\<not> validateDataFreshness 90000000 (morning_onion\<lparr>mp_verified := False\<rparr>)"
    using validateDataFreshness_iff [of 90000000 "morning_onion\<lparr>mp_verified := False\<rparr>"] u
    by blast
  ultimately show ?thesis using o u by blast
qed



text \<open>
  What the \<open>catch\<close> block of the orchestrator does when its source rejects: the stale
  entry comes back. The source client never rejects, so this branch is not reached
  when the adapter is built over it.
\<close>

lemma stale_returned_when_source_throws:
  "fst (fetchMandiPrices_with sample_clock (Inl ''API Error'') stale_cache_adapter ''Delhi''
          90000000) = [stale_onion]"
  using stale_cached stale_not_fresh
  by (simp add: fetchMandiPrices_with_def Let_def
      stale_cache_adapter_def [THEN arg_cong, of isInitialized])

lemma source_failure_gives_empty:
  assumes "makeRequestWithRetry http = Inl e"
    and "\<forall>ps. getCachedMandiPrices (cache (if isInitialized a then a else initialize a))
               location date = Some ps \<longrightarrow>
             filter (Cached_validateDataFreshness clk) ps = []"
  shows "fst (Cached_fetchMandiPrices clk http a location date) = []"
  using assms
  by (auto simp: Cached_fetchMandiPrices_def fetchMandiPrices_with_def fetchMandiPrices_def
      Let_def split: option.splits)

text \<open>
  C1. The claim is that a failed source with a stale, non-empty cache entry for the
  location and date gives back that entry. Here the provider answers every attempt
  with 503, the cache holds one verified record that is 25 hours old for Delhi and the
  day, and the adapter returns the empty array: the source client has turned the
  failure into an empty array, which the orchestrator takes for a successful fetch.
\<close>

theorem stale_fallback_not_reached:
  "makeRequestWithRetry (failing_http :: nat \<Rightarrow> raw_price http_outcome) =
     Inl ''Service Unavailable'' \<and>
   getCachedMandiPrices (cache stale_cache_adapter) ''Delhi'' 90000000 = Some [stale_onion] \<and>
   fst (Cached_fetchMandiPrices sample_clock failing_http stale_cache_adapter ''Delhi''
          90000000) = []"
  using stale_cached stale_not_fresh
  by (simp add: failing_http_fails Cached_fetchMandiPrices_def fetchMandiPrices_with_def
      fetchMandiPrices_def Let_def stale_cache_adapter_def [THEN arg_cong, of isInitialized])

lemma fetchMandiPrices_with_store:
  "fetchMandiPrices_with clk api a location date = (r, a') \<Longrightarrow>
   historical_db (cache a') = historical_db (cache a) \<and>
   (prices_db (cache a') = prices_db (cache a) \<or>
    (\<exists>ps. api = Inr ps \<and> ps \<noteq> [] \<and>
       prices_db (cache a') =
         (prices_db (cache a))(generateMandiPricesKey location date \<mapsto> ps)))"
  by (auto simp: fetchMandiPrices_with_def initialize_def connect_def cacheMandiPrices_def Let_def
      split: if_splits sum.splits option.splits)

lemma getHistoricalData_with_store:
  "getHistoricalData_with api a product location days = (r, a') \<Longrightarrow>
   prices_db (cache a') = prices_db (cache a) \<and>
   (historical_db (cache a') = historical_db (cache a) \<or>
    (\<exists>ps. api = Inr ps \<and> ps \<noteq> [] \<and>
       historical_db (cache a') =
         (historical_db (cache a))(generateHistoricalDataKey product location days \<mapsto> ps)))"
  by (auto simp: getHistoricalData_with_def initialize_def connect_def cacheHistoricalData_def
      Let_def split: if_splits sum.splits option.splits)

lemma fetchMandiPrices_with_no_write:
  "api = Inr [] \<or> (\<exists>e. api = Inl e) \<Longrightarrow>
   prices_db (cache (snd (fetchMandiPrices_with clk api a location date))) = prices_db (cache a)"
  using fetchMandiPrices_with_store [of clk api a location date]
  by (cases "fetchMandiPrices_with clk api a location date") auto

lemma getHistoricalData_with_no_write:
  "api = Inr [] \<or> (\<exists>e. api = Inl e) \<Longrightarrow>
   historical_db (cache (snd (getHistoricalData_with api a product location days))) =
     historical_db (cache a)"
  using getHistoricalData_with_store [of api a product location days]
  by (cases "getHistoricalData_with api a product location days") auto

text \<open>
  C10. Whatever the source answers, \<open>fetchMandiPrices\<close> and \<open>getHistoricalData\<close> of the
  cached adapter leave the store as it was or add, under the key of the request, the
  non-empty array the source returned; when the source rejects or returns the empty
  array the store is unchanged, and so it is when the HTTP request of the adapter's own
  source client fails.
\<close>

theorem cache_written_only_with_nonempty_data:
  "(prices_db (cache (snd (fetchMandiPrices_with clk api a location date))) = prices_db (cache a) \<or>
    (\<exists>ps. api = Inr ps \<and> ps \<noteq> [] \<and>
       prices_db (cache (snd (fetchMandiPrices_with clk api a location date))) =
         (prices_db (cache a))(generateMandiPricesKey location date \<mapsto> ps)))
   \<and> (historical_db (cache (snd (getHistoricalData_with hapi a product location days))) =
         historical_db (cache a) \<or>
       (\<exists>hs. hapi = Inr hs \<and> hs \<noteq> [] \<and>
          historical_db (cache (snd (getHistoricalData_with hapi a product location days))) =
            (historical_db (cache a))(generateHistoricalDataKey product location days \<mapsto> hs)))
   \<and> (api = Inr [] \<or> (\<exists>e. api = Inl e) \<longrightarrow>
        prices_db (cache (snd (fetchMandiPrices_with clk api a location date))) =
          prices_db (cache a))
   \<and> (hapi = Inr [] \<or> (\<exists>e. hapi = Inl e) \<longrightarrow>
        historical_db (cache (snd (getHistoricalData_with hapi a product location days))) =
          historical_db (cache a))
   \<and> ((\<exists>e. makeRequestWithRetry http = Inl e) \<longrightarrow>
        prices_db (cache (snd (Cached_fetchMandiPrices clk http a location date))) =
          prices_db (cache a))
   \<and> ((\<exists>e. makeRequestWithRetry hhttp = Inl e) \<longrightarrow>
        historical_db (cache (snd (Cached_getHistoricalData hhttp a product location days))) =
          historical_db (cache a))"
proof (intro conjI impI)
  show "prices_db (cache (snd (fetchMandiPrices_with clk api a location date))) =
          prices_db (cache a) \<or>
    (\<exists>ps. api = Inr ps \<and> ps \<noteq> [] \<and>
       prices_db (cache (snd (fetchMandiPrices_with clk api a location date))) =
         (prices_db (cache a))(generateMandiPricesKey location date \<mapsto> ps))"
    using fetchMandiPrices_with_store [of clk api a location date]
    by (cases "fetchMandiPrices_with clk api a location date") auto
  show "historical_db (cache (snd (getHistoricalData_with hapi a product location days))) =
         historical_db (cache a) \<or>
       (\<exists>hs. hapi = Inr hs \<and> hs \<noteq> [] \<and>
          historical_db (cache (snd (getHistoricalData_with hapi a product location days))) =
            (historical_db (cache a))(generateHistoricalDataKey product location days \<mapsto> hs))"
    using getHistoricalData_with_store [of hapi a product location days]
    by (cases "getHistoricalData_with hapi a product location days") auto
  show "prices_db (cache (snd (fetchMandiPrices_with clk api a location date))) =
          prices_db (cache a)" if "api = Inr [] \<or> (\<exists>e. api = Inl e)"
    using that by (rule fetchMandiPrices_with_no_write)
  show "historical_db (cache (snd (getHistoricalData_with hapi a product location days))) =
          historical_db (cache a)" if "hapi = Inr [] \<or> (\<exists>e. hapi = Inl e)"
    using that by (rule getHistoricalData_with_no_write)
  show "prices_db (cache (snd (Cached_fetchMandiPrices clk http a location date))) =
          prices_db (cache a)" if "\<exists>e. makeRequestWithRetry http = Inl e"
    using that fetchMandiPrices_with_no_write [of "Inr []" clk a location date]
    by (auto simp: Cached_fetchMandiPrices_def fetchMandiPrices_def)
  show "historical_db (cache (snd (Cached_getHistoricalData hhttp a product location days))) =
          historical_db (cache a)" if "\<exists>e. makeRequestWithRetry hhttp = Inl e"
    using that getHistoricalData_with_no_write [of "Inr []" a product location days]
    by (auto simp: Cached_getHistoricalData_def getHistoricalData_def)
qed

theorem cache_written_only_with_nonempty_data_witness:
  "makeRequestWithRetry (failing_http :: nat \<Rightarrow> raw_price http_outcome) =
     Inl ''Service Unavailable'' \<and>
   prices_db (cache (snd (Cached_fetchMandiPrices sample_clock failing_http stale_cache_adapter
      ''Delhi'' 90000000))) = prices_db (cache stale_cache_adapter) \<and>
   prices_db (cache (snd (fetchMandiPrices_with sample_clock (Inr []) stale_cache_adapter
      ''Delhi'' 90000000))) = prices_db (cache stale_cache_adapter) \<and>
   prices_db (cache (snd (fetchMandiPrices_with sample_clock (Inl ''API Error'')
      stale_cache_adapter ''Delhi'' 90000000))) = prices_db (cache stale_cache_adapter) \<and>
   historical_db (cache (snd (getHistoricalData_with (Inr []) stale_cache_adapter
      ''tomato'' ''Delhi'' (Fin 30)))) = historical_db (cache stale_cache_adapter) \<and>
   prices_db (cache stale_cache_adapter) (generateMandiPricesKey ''Delhi'' 90000000) =
     Some [stale_onion]"
proof -
  have f: "\<exists>e. makeRequestWithRetry (failing_http :: nat \<Rightarrow> raw_price http_outcome) = Inl e"
    using failing_http_fails by blast
  have k: "prices_db (cache stale_cache_adapter) (generateMandiPricesKey ''Delhi'' 90000000) =
     Some [stale_onion]"
    by (simp add: stale_cache_adapter_def)
  show ?thesis
    using cache_written_only_with_nonempty_data
        [of sample_clock "Inr []" stale_cache_adapter "''Delhi''" 90000000 "Inr []"
          "''tomato''" "Fin 30" failing_http failing_http]
      cache_written_only_with_nonempty_data
        [of sample_clock "Inl ''API Error''" stale_cache_adapter "''Delhi''" 90000000 "Inr []"
          "''tomato''" "Fin 30" failing_http failing_http]
      f k failing_http_fails
    by simp
qed

section \<open>The validator and the formatter\<close>

lemma formatPrice_Inr:
  "formatPrice x = Inr y \<Longrightarrow> y \<noteq> NaN \<and> y \<noteq> NegInf \<and> y \<noteq> NonNum"
  by (cases x)
    (auto simp: formatPrice_def isNaN_def is_number_def inf_signed_def split: if_splits)

lemma formatConfidence_Inr: "formatConfidence x = Inr y \<Longrightarrow> y \<noteq> NaN \<and> y \<noteq> NonNum"
  by (cases x)
    (auto simp: formatConfidence_def isNaN_def is_number_def inf_signed_def js_gt_def
      split: if_splits)

lemma formatPriceInfo_Inr:
  assumes "formatPriceInfo p0 = Inr p"
  shows "current p \<noteq> NaN \<and> minimum p \<noteq> NaN \<and> maximum p \<noteq> NaN \<and> average p \<noteq> NaN \<and>
         confidence p \<noteq> NaN \<and>
         current p \<noteq> NonNum \<and> minimum p \<noteq> NonNum \<and> maximum p \<noteq> NonNum \<and>
         average p \<noteq> NonNum \<and> confidence p \<noteq> NonNum"
  using assms
  by (auto simp: formatPriceInfo_def split: sum.splits
      dest: formatPrice_Inr formatConfidence_Inr)

lemma validatePriceData_valid:
  assumes "isValid (validatePriceData now p)"
  shows "\<not> js_lt (current p) (Fin 0) \<and> \<not> js_lt (minimum p) (Fin 0) \<and>
         \<not> js_lt (maximum p) (Fin 0) \<and> \<not> js_lt (average p) (Fin 0) \<and>
         \<not> js_lt (confidence p) (Fin 0) \<and> \<not> js_gt (confidence p) (Fin 1) \<and>
         \<not> js_gt (minimum p) (maximum p) \<and>
         \<not> js_lt (current p) (minimum p) \<and> \<not> js_gt (current p) (maximum p) \<and>
         \<not> js_lt (average p) (minimum p) \<and> \<not> js_gt (average p) (maximum p) \<and>
         \<not> js_gt (current p) (Fin 100000) \<and> \<not> js_gt (minimum p) (Fin 100000) \<and>
         \<not> js_gt (maximum p) (Fin 100000) \<and> \<not> js_gt (average p) (Fin 100000)"
  using assms
  by (simp add: validatePriceData_def Let_def push_if_Nil maxReasonablePrice_def)

text \<open>
  The validator alone lets \<open>NaN\<close> through, every comparison with it being false; the
  formatter throws on it. Together they leave finite, ordered fields.
\<close>

lemma formatted_valid_in_range:
  assumes f: "formatPriceInfo p0 = Inr p" and v: "isValid (validatePriceData now p)"
  shows "in_range p"
proof -
  note n = formatPriceInfo_Inr [OF f]
  note w = validatePriceData_valid [OF v]
  obtain c where c: "current p = Fin c"
    using n w by (cases "current p") (simp_all add: js_gt_def)
  obtain mn where mn: "minimum p = Fin mn"
    using n w by (cases "minimum p") (simp_all add: js_gt_def)
  obtain mx where mx: "maximum p = Fin mx"
    using n w by (cases "maximum p") (simp_all add: js_gt_def)
  obtain av where av: "average p = Fin av"
    using n w by (cases "average p") (simp_all add: js_gt_def)
  obtain cf where cf: "confidence p = Fin cf"
    using n w by (cases "confidence p") (simp_all add: js_gt_def)
  show ?thesis
    using w unfolding in_range_def c mn mx av cf
    by (simp add: js_gt_def not_less)
qed





section \<open>The engine: current prices\<close>

lemma getCurrentPrice_cases:
  assumes "getCurrentPrice clk adapter ai s q = (Inr p, s')"
  shows "(\<exists>ts. priceCache s (generateCacheKey q) = Some (p, ts) \<and>
              isCacheValid (clk_now clk) ts \<and> s' = s)
       \<or> ((\<exists>p0. formatPriceInfo p0 = Inr p) \<and> isValid (validatePriceData (clk_now clk) p) \<and>
          s' = s\<lparr>priceCache := (priceCache s)(generateCacheKey q \<mapsto> (p, clk_now clk))\<rparr>)"
  using assms
  by (auto simp: getCurrentPrice_def Let_def split: if_splits sum.splits)

lemma getCurrentPrice_Inl:
  "getCurrentPrice clk adapter ai s q = (Inl e, s') \<Longrightarrow> s' = s"
  by (auto simp: getCurrentPrice_def Let_def split: if_splits sum.splits)

lemma cache_in_range_step:
  assumes "cache_in_range s" and "getCurrentPrice clk adapter ai s q = (res, s')"
  shows "cache_in_range s'"
proof (cases res)
  case (Inl e)
  then show ?thesis using assms getCurrentPrice_Inl by blast
next
  case (Inr p)
  from getCurrentPrice_cases [OF assms(2) [unfolded Inr]] show ?thesis
  proof
    assume "\<exists>ts. priceCache s (generateCacheKey q) = Some (p, ts) \<and>
        isCacheValid (clk_now clk) ts \<and> s' = s"
    then show ?thesis using assms(1) by blast
  next
    assume a: "(\<exists>p0. formatPriceInfo p0 = Inr p) \<and>
        isValid (validatePriceData (clk_now clk) p) \<and>
        s' = s\<lparr>priceCache := (priceCache s)(generateCacheKey q \<mapsto> (p, clk_now clk))\<rparr>"
    then have "in_range p" using formatted_valid_in_range by blast
    then show ?thesis using a assms(1) by (auto simp: cache_in_range_def)
  qed
qed

lemma reachable_cache_in_range: "reachable s \<Longrightarrow> cache_in_range s"
proof (induction rule: reachable.induct)
  case init
  then show ?case by (simp add: cache_in_range_def)
next
  case (call s clk adapter ai product res s')
  then show ?case using cache_in_range_step by blast
next
  case (clean s)
  then show ?case by (simp add: cache_in_range_def cleanup_def)
qed

text \<open>
  C2. In every state the service can reach, for a query that passes validation, a
  price that \<open>getCurrentPrice\<close> returns (from its cache or freshly computed) has finite
  fields with minimum \<open>\<le>\<close> current \<open>\<le>\<close> maximum, minimum \<open>\<le>\<close> average \<open>\<le>\<close> maximum and a
  confidence between 0 and 1.
\<close>

theorem getCurrentPrice_in_range:
  assumes "reachable s" and "isValid (validateProductQuery q)"
    and "getCurrentPrice clk adapter ai s q = (Inr p, s')"
  shows "\<exists>c mn mx av cf.
      current p = Fin c \<and> minimum p = Fin mn \<and> maximum p = Fin mx \<and> average p = Fin av \<and>
      confidence p = Fin cf \<and>
      mn \<le> c \<and> c \<le> mx \<and> mn \<le> av \<and> av \<le> mx \<and> 0 \<le> cf \<and> cf \<le> 1"
proof -
  have "in_range p"
    using getCurrentPrice_cases [OF assms(3)] reachable_cache_in_range [OF assms(1)]
      formatted_valid_in_range
    by (auto simp: cache_in_range_def)
  then show ?thesis by (simp add: in_range_def)
qed

theorem getCurrentPrice_in_range_witness:
  "reachable empty_service \<and> isValid (validateProductQuery tomato_query) \<and>
   getCurrentPrice sample_clock mock_adapter failing_ai empty_service tomato_query =
     (Inr official_tomato, tomato_service) \<and>
   (\<exists>c mn mx av cf.
      current official_tomato = Fin c \<and> minimum official_tomato = Fin mn \<and>
      maximum official_tomato = Fin mx \<and> average official_tomato = Fin av \<and>
      confidence official_tomato = Fin cf \<and>
      mn \<le> c \<and> c \<le> mx \<and> mn \<le> av \<and> av \<le> mx \<and> 0 \<le> cf \<and> cf \<le> 1)"
proof -
  have r: "reachable empty_service" unfolding empty_service_def by (rule reachable.init)
  show ?thesis
    using getCurrentPrice_in_range [OF r valid_tomato first_call] r valid_tomato first_call
    by simp
qed

text \<open>
  C9. After a call of \<open>getCurrentPrice\<close> that returned a price, the cache holds that
  price under the key of the query; a later call with a valid query of the same name,
  category and location, made while less than 5 minutes have passed since the entry
  was stored, returns the very same record, \<open>lastUpdated\<close> included, and leaves the
  cache as it is, whatever the adapter and the AI service would answer.
\<close>

theorem getCurrentPrice_idempotent:
  assumes "getCurrentPrice clk1 adapter1 ai1 s q1 = (Inr p, s1)"
    and "isValid (validateProductQuery q2)"
    and "q_name q2 = q_name q1" and "q_category q2 = q_category q1"
    and "q_location q2 = q_location q1"
  shows "\<exists>ts. priceCache s1 (generateCacheKey q1) = Some (p, ts) \<and>
           (clk_now clk2 - ts < 5 * 60 * 1000 \<longrightarrow>
              getCurrentPrice clk2 adapter2 ai2 s1 q2 = (Inr p, s1))"
proof -
  have k: "generateCacheKey q2 = generateCacheKey q1"
    using assms(3-5) by (simp add: generateCacheKey_def)
  obtain ts where ts: "priceCache s1 (generateCacheKey q1) = Some (p, ts)"
    using getCurrentPrice_cases [OF assms(1)] by auto
  have "getCurrentPrice clk2 adapter2 ai2 s1 q2 = (Inr p, s1)"
    if "clk_now clk2 - ts < 5 * 60 * 1000"
    using that ts assms(2) k
    by (simp add: getCurrentPrice_def Let_def isCacheValid_def CACHE_TTL_MS_def)
  then show ?thesis using ts by blast
qed

theorem getCurrentPrice_idempotent_witness:
  "getCurrentPrice sample_clock mock_adapter failing_ai empty_service tomato_query =
     (Inr official_tomato, tomato_service) \<and>
   isValid (validateProductQuery (tomato_query\<lparr>q_quantity := Fin 2, q_unit := ''quintal''\<rparr>)) \<and>
   priceCache tomato_service (generateCacheKey tomato_query) = Some (official_tomato, 90000000) \<and>
   clk_now later_clock - 90000000 < 5 * 60 * 1000 \<and>
   getCurrentPrice later_clock failing_adapter failing_ai tomato_service
     (tomato_query\<lparr>q_quantity := Fin 2, q_unit := ''quintal''\<rparr>) =
     (Inr official_tomato, tomato_service)"
proof -
  have v: "isValid (validateProductQuery
      (tomato_query\<lparr>q_quantity := Fin 2, q_unit := ''quintal''\<rparr>))"
    by (simp add: validateProductQuery_def tomato_query_def push_if_def trim_def is_ws_def
      js_le_def js_gt_def truthy_def is_number_def)
  have t: "priceCache tomato_service (generateCacheKey tomato_query) =
      Some (official_tomato, 90000000)"
    by (simp add: tomato_service_def)
  have l: "clk_now later_clock - 90000000 < 5 * 60 * 1000" by (simp add: later_clock_def)
  show ?thesis
    using getCurrentPrice_idempotent [OF first_call v, of later_clock failing_adapter failing_ai]
      v t l first_call
    by simp
qed

section \<open>The engine: estimates\<close>





text \<open>
  The baseline path: with an empty history and a failing AI estimate, a valid query
  gets the estimate that \<open>estimateFromCategory\<close> builds from the looked-up base price.
\<close>

lemma estimatePrice_baseline_path:
  assumes "isValid (validateProductQuery q)"
    and "ad_getHistoricalData adapter (q_name q) (q_location q) (Fin 30) = Inr []"
    and "ai_estimatePriceWithAI ai q [] (buildMarketContext clk q []) = Inl e"
  shows "estimatePrice clk adapter ai q =
     Inr \<lparr>current = basePrice_of (toLowerCase (q_category q)),
          minimum = fl_mul (basePrice_of (toLowerCase (q_category q))) (lit 0.8),
          maximum = fl_mul (basePrice_of (toLowerCase (q_category q))) (lit 1.2),
          average = basePrice_of (toLowerCase (q_category q)),
          confidence = Fin 0.3, source = ''estimated'', lastUpdated = clk_now clk,
          estimationMethod = ''category_baseline'', historicalBasis = []\<rparr>"
  using assms by (simp add: estimatePrice_def Let_def estimateFromCategory_def)

text \<open>
  The lookup: the category is lower-cased, the five categories of the table have their
  prices, any other category but the two inherited names has 50.
\<close>

lemma basePrice_of_table:
  "basePrice_of (toLowerCase ''Vegetables'') = Fin 30 \<and>
   basePrice_of (toLowerCase ''FRUITS'') = Fin 50 \<and>
   basePrice_of (toLowerCase ''grains'') = Fin 25 \<and>
   basePrice_of (toLowerCase ''Pulses'') = Fin 80 \<and>
   basePrice_of (toLowerCase ''spices'') = Fin 200 \<and>
   basePrice_of (toLowerCase ''dairy'') = Fin 50 \<and>
   basePrice_of (toLowerCase ''constructor'') = NonNum \<and>
   basePrice_of (toLowerCase ''__proto__'') = NonNum"
proof -
  have "toLowerCase ''Vegetables'' = ''vegetables''" by code_simp
  moreover have "toLowerCase ''FRUITS'' = ''fruits''" by code_simp
  moreover have "toLowerCase ''grains'' = ''grains''" by code_simp
  moreover have "toLowerCase ''Pulses'' = ''pulses''" by code_simp
  moreover have "toLowerCase ''spices'' = ''spices''" by code_simp
  moreover have "toLowerCase ''dairy'' = ''dairy''" by code_simp
  moreover have "toLowerCase ''constructor'' = ''constructor''" by code_simp
  moreover have "toLowerCase ''__proto__'' = ''__proto__''" by code_simp
  ultimately show ?thesis
    by (simp add: basePrice_of_def categoryBasePrices_def)
qed

lemma basePrice_of_cases:
  "basePrice_of key =
     (if key = ''vegetables'' then Fin 30 else if key = ''fruits'' then Fin 50
      else if key = ''grains'' then Fin 25 else if key = ''pulses'' then Fin 80
      else if key = ''spices'' then Fin 200
      else if key = ''constructor'' \<or> key = ''__proto__'' then NonNum else Fin 50)"
  by (simp add: basePrice_of_def categoryBasePrices_def)

text \<open>The baseline estimate of a category of the table: vegetables, at 30, 24 and 36.\<close>

lemma baseline_vegetables:
  "estimatePrice sample_clock mock_adapter failing_ai tomato_query =
     Inr \<lparr>current = Fin 30, minimum = Fin 24, maximum = Fin 36, average = Fin 30,
          confidence = Fin 0.3, source = ''estimated'', lastUpdated = 90000000,
          estimationMethod = ''category_baseline'', historicalBasis = []\<rparr>"
  using valid_tomato
  by (simp add: estimatePrice_def Let_def estimateFromCategory_def mock_adapter_def
      failing_ai_def sample_clock_def basePrice_of_cases toLowerCase_def lower_char_def
      tomato_query_def [THEN arg_cong, of q_name]
      tomato_query_def [THEN arg_cong, of q_category]
      tomato_query_def [THEN arg_cong, of q_location] fl_eval rd_eval)

text \<open>
  C4 fails on a valid query of the category \<open>constructor\<close>, with an empty 30-day
  history and a failing AI estimate. The table has no such category, so the estimate
  built from the table would have the default price 50; but the lookup
  \<open>categoryBasePrices[key] || 50\<close> finds the constructor function that the object
  literal inherits, which is truthy, and \<open>estimatePrice\<close> returns an estimate whose
  current and average prices are that function, not a number, and whose minimum and
  maximum are \<open>NaN\<close>. The confidence 0.3, the empty basis and the method tag are as
  claimed.
\<close>

theorem estimatePrice_inherited_category:
  "isValid (validateProductQuery constructor_query) \<and>
   ad_getHistoricalData mock_adapter (q_name constructor_query) (q_location constructor_query)
     (Fin 30) = Inr [] \<and>
   ai_estimatePriceWithAI failing_ai constructor_query []
     (buildMarketContext sample_clock constructor_query []) = Inl ''AI service error'' \<and>
   map_of categoryBasePrices (toLowerCase (q_category constructor_query)) = None \<and>
   estimatePrice sample_clock mock_adapter failing_ai constructor_query =
     Inr \<lparr>current = NonNum, minimum = NaN, maximum = NaN, average = NonNum,
          confidence = Fin 0.3, source = ''estimated'', lastUpdated = 90000000,
          estimationMethod = ''category_baseline'', historicalBasis = []\<rparr>"
proof -
  have h: "ad_getHistoricalData mock_adapter (q_name constructor_query)
      (q_location constructor_query) (Fin 30) = Inr []"
    by (simp add: mock_adapter_def)
  have a: "ai_estimatePriceWithAI failing_ai constructor_query []
      (buildMarketContext sample_clock constructor_query []) = Inl ''AI service error''"
    by (simp add: failing_ai_def)
  have k: "toLowerCase (q_category constructor_query) = ''constructor''"
    by (simp add: constructor_query_def toLowerCase_def lower_char_def)
  have t: "map_of categoryBasePrices ''constructor'' = None"
    by (simp add: categoryBasePrices_def)
  have b: "basePrice_of ''constructor'' = NonNum"
    by (simp add: basePrice_of_cases)
  have "estimatePrice sample_clock mock_adapter failing_ai constructor_query =
     Inr \<lparr>current = NonNum, minimum = NaN, maximum = NaN, average = NonNum,
          confidence = Fin 0.3, source = ''estimated'', lastUpdated = 90000000,
          estimationMethod = ''category_baseline'', historicalBasis = []\<rparr>"
    using estimatePrice_baseline_path [OF valid_constructor h a]
    by (simp add: k b fl_mul_def sample_clock_def)
  then show ?thesis using valid_constructor h a k t by simp
qed

theorem estimatePrice_inherited_category_witness:
  "isValid (validateProductQuery constructor_query) \<and>
   (case estimatePrice sample_clock mock_adapter failing_ai constructor_query of
      Inl e \<Rightarrow> False
    | Inr r \<Rightarrow> \<not> is_number (current r) \<and> \<not> is_number (average r) \<and>
        minimum r = NaN \<and> maximum r = NaN \<and> confidence r = Fin 0.3 \<and>
        historicalBasis r = [] \<and> estimationMethod r = ''category_baseline'')"
  using estimatePrice_inherited_category by (simp add: is_number_def)

text \<open>
  What the caller of \<open>getCurrentPrice\<close> sees of it: the formatter throws on the
  estimate, so the call fails and nothing is cached.
\<close>

lemma inherited_category_not_formatted:
  "formatPriceInfo
     \<lparr>current = NonNum, minimum = NaN, maximum = NaN, average = NonNum,
      confidence = Fin 0.3, source = ''estimated'', lastUpdated = 90000000,
      estimationMethod = ''category_baseline'', historicalBasis = []\<rparr>
   = Inl ''Price must be a valid number''"
  by (simp add: formatPriceInfo_def formatPrice_def is_number_def)

section \<open>The engine: statistics\<close>

lemma calculateTrend_spec:
  "2 \<le> length pts \<Longrightarrow>
   calculateTrend pts =
     (if js_gt (relative_change (map pp_price pts)) (lit 0.05) then rising
      else if js_lt (relative_change (map pp_price pts)) (lit (- 0.05)) then falling
      else stable)"
  by (simp add: calculateTrend_def Let_def avg_field relative_change_def slice_last_def
      take_map drop_map)

text \<open>
  On a series of at most 7 points the last 7 and the first 7 are the same points, so
  the trend is always stable.
\<close>

lemma calculateTrend_short_series: "length pts \<le> 7 \<Longrightarrow> calculateTrend pts = stable"
proof (cases "length pts < 2")
  case True
  then show ?thesis by (simp add: calculateTrend_def)
next
  case False
  assume "length pts \<le> 7"
  then have s: "slice_last 7 (map pp_price pts) = take 7 (map pp_price pts)"
    by (simp add: slice_last_def)
  have "\<not> js_gt (fl_div (fl_sub m m) m) (lit 0.05) \<and>
        \<not> js_lt (fl_div (fl_sub m m) m) (lit (- 0.05))" for m
    unfolding lit_005 lit_minus_005
    by (cases m) (simp_all add: fl_div_def fl_sub_def js_sub_def js_gt_def rd_def)
  then show ?thesis
    using False calculateTrend_spec [of pts]
    by (simp add: relative_change_def s)
qed

text \<open>
  C8, as stated, fails at the threshold. For the prices 9, 9, 9, 9, 8, 8, 8, 12 the
  mean of the last 7 is 9 and the mean of the first 7 is \<open>60/7\<close>, so the relative change
  is exactly \<open>1/20\<close>, which is not above 0.05: the claim says stable. The code divides
  doubles: its mean of the first 7 is a little below \<open>60/7\<close>, its quotient a little
  above its 0.05, and \<open>getPriceHistory\<close> returns rising.
\<close>

theorem threshold_trend_counterexample:
  "getPriceHistory threshold_adapter tomato_query (Fin 8) = Inr threshold_history \<and>
   map pp_price (ph_prices threshold_history) = map Fin [9, 9, 9, 9, 8, 8, 8, 12] \<and>
   ph_trend threshold_history = rising \<and>
   \<not> 0.05 < (mean (slice_last 7 [9, 9, 9, 9, 8, 8, 8, 12]) - mean (take 7 [9, 9, 9, 9, 8, 8, 8, 12]))
              / mean (take 7 [9, 9, 9, 9, 8, 8, 8, 12])"
proof -
  have "map pp_price (ph_prices threshold_history) = map Fin [9, 9, 9, 9, 8, 8, 8, 12]"
    by (simp add: threshold_history_def threshold_series_def day_price_def toOfficialPoint_def)
  moreover have "ph_trend threshold_history = rising"
    by (simp add: threshold_history_def)
  moreover have "\<not> 0.05 < (mean (slice_last 7 [9, 9, 9, 9, 8, 8, 8, 12]) -
      mean (take 7 [9, 9, 9, 9, 8, 8, 8, 12])) / mean (take 7 [9, 9, 9, 9, 8, 8, 8, 12])"
    by (simp add: mean_def slice_last_def)
  ultimately show ?thesis using threshold_history_call by simp
qed

text \<open>
  C8, amended. For a history of at least two points, all numbers and none negative,
  that \<open>getPriceHistory\<close> returns, the trend is rising exactly when the relative change from
  the mean of the first 7 points to the mean of the last 7 points, each sum, quotient
  and difference rounded to a double as the program computes it, is above the double
  nearest to 0.05; falling exactly when it is below the double nearest to \<open>-0.05\<close>; and
  stable otherwise. (With no negative price no zero of the computation is negative, and
  the sign of zero plays no part.)
\<close>

theorem getPriceHistory_trend:
  assumes "getPriceHistory adapter q days = Inr h" and "2 \<le> length (ph_prices h)"
    and "none_negative (map pp_price (ph_prices h))"
  shows "(ph_trend h = rising \<longleftrightarrow>
            js_gt (relative_change (map pp_price (ph_prices h))) (lit 0.05))
     \<and> (ph_trend h = falling \<longleftrightarrow>
            js_lt (relative_change (map pp_price (ph_prices h))) (lit (- 0.05)))
     \<and> (ph_trend h = stable \<longleftrightarrow>
          \<not> js_gt (relative_change (map pp_price (ph_prices h))) (lit 0.05) \<and>
          \<not> js_lt (relative_change (map pp_price (ph_prices h))) (lit (- 0.05)))"
proof -
  have tr: "ph_trend h = calculateTrend (ph_prices h)"
    using assms(1)
    by (auto simp: getPriceHistory_def Let_def split: if_splits sum.splits)
  have excl: "\<not> (js_gt (relative_change (map pp_price (ph_prices h))) (lit 0.05) \<and>
      js_lt (relative_change (map pp_price (ph_prices h))) (lit (- 0.05)))"
    unfolding lit_005 lit_minus_005
    using js_gt_lt_excl [of _ "3602879701896397 / 72057594037927936"
        "- 3602879701896397 / 72057594037927936"]
    by auto
  show ?thesis
    using excl by (auto simp: tr calculateTrend_spec [OF assms(2)])
qed

theorem getPriceHistory_trend_witness:
  "getPriceHistory series_adapter tomato_query (Fin 8) = Inr rising_history \<and>
   2 \<le> length (ph_prices rising_history) \<and>
   none_negative (map pp_price (ph_prices rising_history)) \<and>
   map pp_price (ph_prices rising_history) = map Fin [20, 22, 24, 26, 28, 30, 32, 34] \<and>
   relative_change (map pp_price (ph_prices rising_history)) = lit (1 / 13) \<and>
   js_gt (lit (1 / 13)) (lit 0.05) \<and>
   ph_trend rising_history = rising"
proof -
  have l: "2 \<le> length (ph_prices rising_history)"
    by (simp add: rising_history_def rising_series_def)
  have n: "none_negative (map pp_price (ph_prices rising_history))"
    by (simp add: rising_prices none_negative_def is_number_def)
  have r: "relative_change (map pp_price (ph_prices rising_history)) = lit (1 / 13)"
    by (simp add: rising_prices relative_change_def fl_mean_def fl_sum_def slice_last_def
        fl_eval rd_eval)
  have g: "js_gt (lit (1 / 13)) (lit 0.05)"
    by (simp add: lit_def rd_eval js_gt_def)
  have "ph_trend rising_history = rising"
    using getPriceHistory_trend [OF rising_history_call l n] g by (simp add: r)
  then show ?thesis using rising_history_call l n rising_prices r g by simp
qed

lemma calculateTrendMultiplier_spec:
  "2 \<le> length recent \<Longrightarrow> calculateTrendMultiplier recent = spec_trend_multiplier recent"
  by (simp add: calculateTrendMultiplier_def spec_trend_multiplier_def fl_mean_def fl_sum_def
      first_half_def second_half_def Let_def)

lemma current_spec:
  assumes "2 \<le> length hist"
  shows "current (estimateFromHistoricalData clk q hist) =
     spec_statistical_current (map hp_price hist)"
proof -
  have "2 \<le> length (slice_last 7 hist)" using assms by (simp add: slice_last_def)
  then have "calculateTrendMultiplier (map hp_price (slice_last 7 hist)) =
     spec_trend_multiplier (slice_last 7 (map hp_price hist))"
    by (simp add: calculateTrendMultiplier_spec slice_last_def drop_map)
  then show ?thesis
    by (simp add: estimateFromHistoricalData_def Let_def avg_plain spec_statistical_current_def)
qed

lemma current_single:
  assumes "length hist = 1"
  shows "current (estimateFromHistoricalData clk q hist) =
     round2 (fl_mul (fl_mean (map hp_price hist)) (Fin 1))"
  using assms
  by (simp add: estimateFromHistoricalData_def Let_def avg_plain calculateTrendMultiplier_def
      slice_last_def)

lemma bounds_spec:
  "minimum (estimateFromHistoricalData clk q hist) =
     round2 (fl_mul (Math_min (map hp_price hist)) (lit 0.9))"
  "maximum (estimateFromHistoricalData clk q hist) =
     round2 (fl_mul (Math_max (map hp_price hist)) (lit 1.1))"
  "confidence (estimateFromHistoricalData clk q hist) =
     round2 (fl_mul (Math_min2 (fl_div (Fin (real (length hist))) (Fin 30)) (Fin 1)) (lit 0.8))"
  by (simp_all add: estimateFromHistoricalData_def Let_def calculateConfidence_def round2_def
      js_len_def)

text \<open>
  C7, as stated, fails on a history of one point: the first half of one price is
  empty, so the claimed product (mean of all prices times the ratio of the half means)
  has no value, \<open>NaN\<close> in the arithmetic of the program, while the code, whose trend
  multiplier is 1 below two prices, returns the price itself, 10.
\<close>

theorem single_point_current_counterexample:
  "current (estimateFromHistoricalData sample_clock tomato_query one_point_history) = Fin 10 \<and>
   spec_statistical_current (map hp_price one_point_history) = NaN"
  by (simp add: estimateFromHistoricalData_def one_point_history_def day_price_def
      slice_last_def calculateTrendMultiplier_def round2_def
      spec_statistical_current_def spec_trend_multiplier_def fl_mean_def fl_sum_def
      first_half_def second_half_def fl_eval rd_eval)

text \<open>
  C7, amended. Every sum, product and quotient below is rounded to a double, as the
  program computes it, 0.9, 1.1 and 0.8 are the doubles nearest to them, and rounding
  to two decimals is \<open>Math.round(x * 100) / 100\<close> on doubles; the prices are numbers,
  none negative. For a history of at least two points the statistical path returns as
  current the mean of all prices times the ratio of the mean of the second half to the
  mean of the first half of the last 7 prices, rounded to two decimals; for a history
  of one point it returns the mean times 1, rounded. For every non-empty history of
  finite prices the minimum is the least price times 0.9, the maximum the greatest
  price times 1.1 and the confidence \<open>min (points / 30, 1)\<close> times 0.8, each rounded to
  two decimals.
\<close>

theorem estimateFromHistoricalData_formula:
  assumes "none_negative (map hp_price hist)"
  shows "(2 \<le> length hist \<longrightarrow>
      current (estimateFromHistoricalData clk q hist) =
        spec_statistical_current (map hp_price hist))
   \<and> (length hist = 1 \<longrightarrow>
      current (estimateFromHistoricalData clk q hist) =
        round2 (fl_mul (fl_mean (map hp_price hist)) (Fin 1)))
   \<and> (\<forall>xs. map hp_price hist = map Fin xs \<and> xs \<noteq> [] \<longrightarrow>
        minimum (estimateFromHistoricalData clk q hist) =
          round2 (fl_mul (Fin (Min (set xs))) (lit 0.9)) \<and>
        maximum (estimateFromHistoricalData clk q hist) =
          round2 (fl_mul (Fin (Max (set xs))) (lit 1.1)) \<and>
        confidence (estimateFromHistoricalData clk q hist) =
          round2 (fl_mul (Math_min2 (fl_div (Fin (real (length xs))) (Fin 30)) (Fin 1))
                         (lit 0.8)))"
proof (intro conjI impI allI)
  assume "2 \<le> length hist"
  then show "current (estimateFromHistoricalData clk q hist) =
        spec_statistical_current (map hp_price hist)"
    by (rule current_spec)
next
  assume "length hist = 1"
  then show "current (estimateFromHistoricalData clk q hist) =
      round2 (fl_mul (fl_mean (map hp_price hist)) (Fin 1))"
    by (rule current_single)
next
  fix xs assume a: "map hp_price hist = map Fin xs \<and> xs \<noteq> []"
  then have len: "length hist = length xs" by (metis length_map)
  from a show "minimum (estimateFromHistoricalData clk q hist) =
      round2 (fl_mul (Fin (Min (set xs))) (lit 0.9))"
    by (simp add: bounds_spec(1) Math_min_Fin)
  from a show "maximum (estimateFromHistoricalData clk q hist) =
      round2 (fl_mul (Fin (Max (set xs))) (lit 1.1))"
    by (simp add: bounds_spec(2) Math_max_Fin)
  show "confidence (estimateFromHistoricalData clk q hist) =
      round2 (fl_mul (Math_min2 (fl_div (Fin (real (length xs))) (Fin 30)) (Fin 1)) (lit 0.8))"
    by (simp add: bounds_spec(3) len)
qed

theorem estimateFromHistoricalData_formula_witness:
  "none_negative (map hp_price two_point_history) \<and>
   2 \<le> length two_point_history \<and>
   map hp_price two_point_history = map Fin [1, 3] \<and>
   spec_statistical_current (map hp_price two_point_history) = Fin 6 \<and>
   current (estimateFromHistoricalData sample_clock tomato_query two_point_history) = Fin 6 \<and>
   minimum (estimateFromHistoricalData sample_clock tomato_query two_point_history) = lit 0.9 \<and>
   maximum (estimateFromHistoricalData sample_clock tomato_query two_point_history) = lit 3.3 \<and>
   confidence (estimateFromHistoricalData sample_clock tomato_query two_point_history) =
     lit 0.05"
proof -
  have p: "map hp_price two_point_history = map Fin [1, 3]"
    by (simp add: two_point_history_def day_price_def)
  have nn: "none_negative (map hp_price two_point_history)"
    by (simp add: p none_negative_def is_number_def)
  have l: "2 \<le> length two_point_history" by (simp add: two_point_history_def)
  have n: "[1, 3] \<noteq> ([] :: real list)" by simp
  have s: "spec_statistical_current (map Fin [1, 3]) = Fin 6"
    by (simp add: spec_statistical_current_def spec_trend_multiplier_def fl_mean_def fl_sum_def
        first_half_def second_half_def slice_last_def round2_def fl_eval rd_eval)
  note f = estimateFromHistoricalData_formula [OF nn, of sample_clock tomato_query]
  note t = f [THEN conjunct2, THEN conjunct2, rule_format, OF conjI [OF p n]]
  have c: "current (estimateFromHistoricalData sample_clock tomato_query two_point_history) =
      Fin 6"
    using f [THEN conjunct1, rule_format, OF l] s by (simp add: p)
  have "minimum (estimateFromHistoricalData sample_clock tomato_query two_point_history) =
      lit 0.9"
    using t by (simp add: round2_def fl_eval rd_eval)
  moreover have "maximum (estimateFromHistoricalData sample_clock tomato_query
      two_point_history) = lit 3.3"
    using t by (simp add: round2_def fl_eval rd_eval)
  moreover have "confidence (estimateFromHistoricalData sample_clock tomato_query
      two_point_history) = lit 0.05"
    using t by (simp add: round2_def Math_min2_def isNaN_def fl_eval rd_eval)
  ultimately show ?thesis using p nn l s c by simp
qed

end
